theory Spec2Isabelle
  imports Complex_Main "HOL-Library.Word" "HOL-Library.Signed_Division"
begin

section \<open>Machine types of the target\<close>

text \<open>
  The firmware is built for a 32-bit microcontroller: \<^verbatim>\<open>int\<close>, \<^verbatim>\<open>int32_t\<close> and
  \<^verbatim>\<open>unsigned long\<close> are 32 bits wide, \<^verbatim>\<open>uint16_t\<close> is 16 bits and \<^verbatim>\<open>int64_t\<close> is 64 bits.
  They are modelled as words: addition and subtraction wrap around, a signed comparison
  reads both sides with \<open>sint\<close> (\<open><s\<close>, \<open>\<le>s\<close>), an unsigned one with \<open>unat\<close> (\<open><\<close>, \<open>\<le>\<close>).
  Signed division truncates towards zero, as in C++.

  A \<^verbatim>\<open>float\<close> is an IEEE 754 binary32 number and every operation on floats rounds its
  exact result to the nearest binary32 number, ties to even; this is the section on
  binary32 arithmetic below.
\<close>

type_synonym int32_t = "32 word"
type_synonym uint32_t = "32 word"
type_synonym uint16_t = "16 word"
type_synonym int64_t = "64 word"

definition word_sdiv :: "'a::len word \<Rightarrow> 'a word \<Rightarrow> 'a word" where
  "word_sdiv a b = word_of_int (sint a sdiv sint b)"

text \<open>
  What stops a call before it returns: an integer division by zero, or an access beyond
  the sample array. A loop that never ends is the value \<open>None\<close> of the call.
\<close>

datatype fault = DivisionByZero | IndexOutOfBounds

section \<open>Binary32 arithmetic\<close>

text \<open>
  A finite binary32 number is \<open>m * 2 ^ e\<close> with an integer \<open>m\<close> of magnitude below \<open>2 ^ 24\<close>
  and \<open>-149 \<le> e \<le> 104\<close>. The spacing of these numbers around a real \<open>x\<close> is \<open>2 ^ e\<close> for
  the least such \<open>e\<close> with \<open>\<bar>x\<bar> < 2 ^ (e + 24)\<close> (and \<open>2 ^ 104\<close> beyond the largest of them);
  \<open>quantum_exp\<close> finds this \<open>e\<close>, and \<open>round_nearest\<close> rounds \<open>x\<close> to the nearest multiple of
  the spacing, a tie going to the even multiple.
\<close>

definition round_even :: "real \<Rightarrow> int" where
  "round_even x =
     (let f = \<lfloor>x\<rfloor>
      in if x - of_int f < 1 / 2 then f
         else if 1 / 2 < x - of_int f then f + 1
         else if even f then f else f + 1)"

function quantum_search :: "real \<Rightarrow> int \<Rightarrow> int" where
  "quantum_search a e =
     (if e < 104 \<and> 2 powi (e + 24) \<le> a then quantum_search a (e + 1) else e)"
  by pat_completeness auto
termination
  by (relation "measure (\<lambda>(a, e). nat (104 - e))") auto

declare quantum_search.simps [simp del]

definition quantum_exp :: "real \<Rightarrow> int" where
  "quantum_exp x = quantum_search \<bar>x\<bar> (- 149)"

definition round_nearest :: "real \<Rightarrow> real" where
  "round_nearest x = of_int (round_even (x / 2 powi quantum_exp x)) * 2 powi quantum_exp x"

text \<open>
  A float: a finite number, an infinity, or not a number. The two zeros are one (the
  source never divides by a zero and never looks at its sign). A result that rounds to
  \<open>2 ^ 128\<close> or beyond is an infinity.
\<close>

datatype float = Finite real | PInf | NInf | NaN

definition round32 :: "real \<Rightarrow> float" where
  "round32 x =
     (let r = round_nearest x
      in if 2 powi 128 \<le> \<bar>r\<bar> then (if 0 < r then PInf else NInf) else Finite r)"

fun fneg :: "float \<Rightarrow> float" where
  "fneg (Finite x) = Finite (- x)"
| "fneg PInf = NInf"
| "fneg NInf = PInf"
| "fneg NaN = NaN"

fun fabs :: "float \<Rightarrow> float" where
  "fabs (Finite x) = Finite \<bar>x\<bar>"
| "fabs PInf = PInf"
| "fabs NInf = PInf"
| "fabs NaN = NaN"

fun fadd :: "float \<Rightarrow> float \<Rightarrow> float" where
  "fadd NaN b = NaN"
| "fadd a NaN = NaN"
| "fadd (Finite x) (Finite y) = round32 (x + y)"
| "fadd (Finite x) b = b"
| "fadd a (Finite y) = a"
| "fadd PInf PInf = PInf"
| "fadd NInf NInf = NInf"
| "fadd PInf NInf = NaN"
| "fadd NInf PInf = NaN"

definition fsub :: "float \<Rightarrow> float \<Rightarrow> float" where
  "fsub a b = fadd a (fneg b)"

fun fmul :: "float \<Rightarrow> float \<Rightarrow> float" where
  "fmul NaN b = NaN"
| "fmul a NaN = NaN"
| "fmul (Finite x) (Finite y) = round32 (x * y)"
| "fmul (Finite x) b = (if x = 0 then NaN else if 0 < x then b else fneg b)"
| "fmul a (Finite y) = (if y = 0 then NaN else if 0 < y then a else fneg a)"
| "fmul PInf b = b"
| "fmul NInf b = fneg b"

fun fdiv :: "float \<Rightarrow> float \<Rightarrow> float" where
  "fdiv NaN b = NaN"
| "fdiv a NaN = NaN"
| "fdiv (Finite x) (Finite y) =
     (if y = 0 then (if x = 0 then NaN else if 0 < x then PInf else NInf)
      else round32 (x / y))"
| "fdiv (Finite x) b = Finite 0"
| "fdiv a (Finite y) = (if 0 \<le> y then a else fneg a)"
| "fdiv a b = NaN"

text \<open>The comparisons \<^verbatim>\<open><\<close> and \<^verbatim>\<open>>\<close>: false as soon as one side is not a number.\<close>

fun flt :: "float \<Rightarrow> float \<Rightarrow> bool" where
  "flt NaN b = False"
| "flt a NaN = False"
| "flt (Finite x) (Finite y) = (x < y)"
| "flt (Finite x) PInf = True"
| "flt (Finite x) NInf = False"
| "flt PInf b = False"
| "flt NInf NInf = False"
| "flt NInf b = True"

definition fgt :: "float \<Rightarrow> float \<Rightarrow> bool" where
  "fgt a b = flt b a"

text \<open>The square root of a finite float.\<close>

definition fsqrt :: "real \<Rightarrow> float" where
  "fsqrt v = (if v < 0 then NaN else Finite (round_nearest (sqrt v)))"

text \<open>
  The number held by a float that is finite. The weights that the load cell driver hands
  out are finite (a converted 32-bit integer times a gain below 1) and so is everything
  the state machine keeps of them; such floats are kept as the real number they hold, and
  an operation on them whose result cannot reach \<open>2 ^ 128\<close> is \<open>round_nearest\<close> of the
  exact result.
\<close>

fun value_of :: "float \<Rightarrow> real" where
  "value_of (Finite x) = x"
| "value_of a = 0"

text \<open>Conversion of a float to \<^verbatim>\<open>int\<close>: the fraction is dropped (rounding towards zero).\<close>

definition float_to_int :: "real \<Rightarrow> int32_t" where
  "float_to_int x = word_of_int (if 0 \<le> x then \<lfloor>x\<rfloor> else \<lceil>x\<rceil>)"

section \<open>The load cell driver (loadcell.h, loadcell.cpp)\<close>

datatype Sensor = RESERVOIR | BOWL

definition NUM_SAMPLES :: nat where
  "NUM_SAMPLES = 32"

text \<open>The gains are the binary32 numbers nearest to the decimal literals of loadcell.h.\<close>

definition GAIN_RESERVOIR :: real where
  "GAIN_RESERVOIR = round_nearest (- 0.0020530327830519573)"

definition GAIN_BOWL :: real where
  "GAIN_BOWL = round_nearest 0.003227106961589246"

definition INT32_MIN :: int32_t where
  "INT32_MIN = - 2147483648"

text \<open>
  \<open>samples\<close> is the array of \<open>NUM_SAMPLES\<close> raw readings. \<open>mean\<close> is a finite float (see
  \<open>Loadcell_finish\<close>) and is kept as the number it holds; \<open>stddev\<close> can be not a number.
\<close>

record Loadcell =
  samples_remaining :: int32_t
  sensor :: Sensor
  apply_tare :: bool
  samples :: "int32_t list"
  tare_reservoir :: int32_t
  tare_bowl :: int32_t
  mean :: real
  stddev :: float
  mean_raw :: int32_t

definition Loadcell_init :: Loadcell where
  "Loadcell_init = \<lparr> samples_remaining = 0, sensor = RESERVOIR, apply_tare = False,
     samples = replicate NUM_SAMPLES 0, tare_reservoir = INT32_MIN, tare_bowl = INT32_MIN,
     mean = 0, stddev = Finite 0, mean_raw = 0 \<rparr>"

text \<open>\<open>Loadcell::start\<close>; the reading taken from the converter here is thrown away.\<close>

definition Loadcell_start :: "Sensor \<Rightarrow> bool \<Rightarrow> Loadcell \<Rightarrow> Loadcell" where
  "Loadcell_start target_sensor tare lc =
     lc\<lparr> sensor := target_sensor, samples_remaining := word_of_nat NUM_SAMPLES,
         apply_tare := tare \<rparr>"

text \<open>The first loop of \<open>Loadcell::update\<close>: the 64-bit sum, started at half the sample count.\<close>

definition mean_accum :: "int32_t list \<Rightarrow> int64_t" where
  "mean_accum xs = fold (\<lambda>sample accum. accum + scast sample) xs (word_of_nat (NUM_SAMPLES div 2))"

definition compute_mean_raw :: "int32_t list \<Rightarrow> int32_t" where
  "compute_mean_raw xs = scast (word_sdiv (mean_accum xs) (word_of_nat NUM_SAMPLES))"

text \<open>The second loop: the difference is taken in 32 bits and then widened.\<close>

definition var_accum :: "int32_t \<Rightarrow> int32_t list \<Rightarrow> int64_t" where
  "var_accum m xs =
     fold (\<lambda>sample accum. let diff = (scast (sample - m) :: int64_t) in accum + diff * diff)
       xs (word_of_nat (NUM_SAMPLES div 2))"

text \<open>
  The rest of \<open>Loadcell::update\<close>, run when the last sample of a set has arrived. The
  conversions of the 64-bit sum and of the 32-bit difference to \<^verbatim>\<open>float\<close> round; the
  quotient, the product with the gain (of magnitude below \<open>2 ^ 31\<close>, so finite) and the
  square root (the \<^verbatim>\<open>float\<close> overload) round again. The sum of squares can have wrapped
  to a negative number, of which the square root is not a number.
\<close>

definition Loadcell_finish :: "Loadcell \<Rightarrow> Loadcell" where
  "Loadcell_finish lc =
     (let m = compute_mean_raw (samples lc);
          var = round_nearest (round_nearest (real_of_int (sint (var_accum m (samples lc))))
                               / round_nearest (real NUM_SAMPLES));
          lc1 = lc\<lparr> mean_raw := m \<rparr>;
          lc2 = (case sensor lc1 of
                   RESERVOIR \<Rightarrow>
                     (if apply_tare lc1 \<or> tare_reservoir lc1 = INT32_MIN
                      then lc1\<lparr> tare_reservoir := m \<rparr> else lc1)
                 | BOWL \<Rightarrow>
                     (if apply_tare lc1 \<or> tare_bowl lc1 = INT32_MIN
                      then lc1\<lparr> tare_bowl := m \<rparr> else lc1));
          tare = (case sensor lc2 of RESERVOIR \<Rightarrow> tare_reservoir lc2 | BOWL \<Rightarrow> tare_bowl lc2);
          gain = (case sensor lc2 of RESERVOIR \<Rightarrow> GAIN_RESERVOIR | BOWL \<Rightarrow> GAIN_BOWL)
      in lc2\<lparr> mean := round_nearest (round_nearest (real_of_int (sint (m - tare))) * gain),
              stddev := fmul (fsqrt var) (Finite \<bar>gain\<bar>) \<rparr>)"

text \<open>
  \<open>Loadcell::update\<close>. \<open>hx_ready\<close> and \<open>hx_value\<close> are what the converter answers on this
  call: whether a reading is ready, and the reading.
\<close>

definition Loadcell_update :: "bool \<Rightarrow> int32_t \<Rightarrow> Loadcell \<Rightarrow> fault + Loadcell" where
  "Loadcell_update hx_ready hx_value lc =
     (if samples_remaining lc = 0 then Inr lc
      else if \<not> hx_ready then Inr lc
      else
        let n = samples_remaining lc - 1 in
        if \<not> (0 \<le> sint n \<and> sint n < int NUM_SAMPLES) then Inl IndexOutOfBounds
        else
          let lc1 = lc\<lparr> samples_remaining := n,
                        samples := (samples lc)[nat (sint n) := hx_value] \<rparr>
          in if n \<noteq> 0 then Inr lc1 else Inr (Loadcell_finish lc1))"

definition is_busy :: "Loadcell \<Rightarrow> bool" where
  "is_busy lc = (0 <s samples_remaining lc)"

definition set_tare_raw :: "Sensor \<Rightarrow> int32_t \<Rightarrow> Loadcell \<Rightarrow> Loadcell" where
  "set_tare_raw sn raw lc =
     (case sn of RESERVOIR \<Rightarrow> lc\<lparr> tare_reservoir := raw \<rparr>
               | BOWL \<Rightarrow> lc\<lparr> tare_bowl := raw \<rparr>)"

section \<open>The feeding state machine (fsm.h, fsm.cpp)\<close>

datatype FeedResult = NONE | SUCCESS | SENSOR_RETRY

record FeedReport =
  result :: FeedResult
  arg :: int32_t
  millis :: uint32_t

datatype ErrorSeverity = OKAY | WARNING | ERROR

text \<open>A null message pointer is \<open>None\<close>.\<close>

record ErrorReport =
  message :: "string option"
  severity :: ErrorSeverity

datatype State =
    IDLE
  | IDLE_TARE_RESERVOIR_WAIT
  | IDLE_TARE_RESERVOIR
  | IDLE_TARE_BOWL
  | IDLE_MEASURE_RESERVOIR
  | IDLE_MEASURE_BOWL
  | FEED_PRE_MEASURE_WAIT
  | FEED_PRE_MEASURE_RESERVOIR
  | FEED_PRE_MEASURE_BOWL
  | FEED_RUN_SYNC
  | FEED_RUN_A
  | FEED_RUN_B
  | FEED_RUN_C
  | FEED_POST_WAIT
  | FEED_POST_MEASURE_BOWL
  | FEED_POST_MEASURE_RESERVOIR

datatype MaintenanceMode = OPERATIONAL | MAINTENANCE | JAMMED

text \<open>
  \<open>FeedBlockReason\<close>; its members \<open>MAINTENANCE\<close> and \<open>JAMMED\<close> carry a prefix here, the
  names being taken by \<open>MaintenanceMode\<close>.
\<close>

datatype FeedBlockReason =
  NOT_BLOCKED | BLOCKED_MAINTENANCE | BLOCKED_JAMMED | COOLDOWN | DEFICIT

text \<open>
  The fields of \<open>StateMachine\<close>. A published sensor is its last value (the field \<open>value\<close>
  of \<open>PublishedFloatSensor\<close>, \<open>PublishedBinarySensor\<close> and \<open>PublishedStringSensor\<close>); the
  message sent to the broker is not modelled. \<open>pin_motor\<close> is the level last written to
  the motor pin.
\<close>

record StateMachine =
  loadcell :: Loadcell
  state :: State
  maintenance_mode :: MaintenanceMode
  error_reservoir_stddev :: bool
  error_bowl_stddev :: bool
  error_loadcell_timeout :: bool
  error_loadcell_disagree :: bool
  error_loadcell_unreasonable :: bool
  error_limit_switch :: bool
  error_power_loss :: bool
  grams_per_day :: int32_t
  deficit_ms_remain :: int32_t
  deficit_mg :: int32_t
  deficit_threshold_mg :: int32_t
  update_prev_millis :: uint32_t
  millis_since_reservoir_read :: uint32_t
  millis_since_bowl_read :: uint32_t
  millis_since_feed_attempt :: uint32_t
  millis_since_transition :: uint32_t
  millis_since_mqtt_string_update :: uint32_t
  state_retries :: uint16_t
  feed_sensor_retries :: uint16_t
  feed_jammed_retries :: uint16_t
  feed_reservoir_pre :: real
  feed_reservoir_post :: real
  feed_bowl_pre :: real
  feed_bowl_post :: real
  feed_bowl_post_valid :: bool
  feed_report :: FeedReport
  reservoir_mean :: real
  reservoir_stddev :: float
  bowl_mean :: real
  bowl_stddev :: float
  mqtt_deficit :: real
  mqtt_last_feed :: real
  mqtt_grams_per_day :: real
  mqtt_feeding :: bool
  mqtt_maintenance :: bool
  mqtt_jammed :: bool
  mqtt_error :: string
  pin_motor :: bool

definition FEED_MAX_RETRIES :: uint16_t where
  "FEED_MAX_RETRIES = 3"

definition FEED_RUN_TIMEOUT_MILLIS :: uint32_t where
  "FEED_RUN_TIMEOUT_MILLIS = 3000"

definition FEED_RUN_LIMP_MILLIS :: uint32_t where
  "FEED_RUN_LIMP_MILLIS = 2000"

definition FEED_RUN_POST_MILLIS :: uint32_t where
  "FEED_RUN_POST_MILLIS = 10"

definition FEED_TO_MEASURE_MILLIS :: uint32_t where
  "FEED_TO_MEASURE_MILLIS = 800"

text \<open>The production build (\<open>DEBUG_FSM\<close> is not defined).\<close>

definition FEED_COOLDOWN_MILLIS :: uint32_t where
  "FEED_COOLDOWN_MILLIS = 5 * 60 * 1000"

definition FEED_ASSUMED_WEIGHT_GRAMS :: real where
  "FEED_ASSUMED_WEIGHT_GRAMS = 9.0"

definition FEED_MAX_DISAGREE_GRAMS :: real where
  "FEED_MAX_DISAGREE_GRAMS = 5.0"

text \<open>The member initialisers of fsm.h, in the production build.\<close>

definition StateMachine_init :: StateMachine where
  "StateMachine_init = \<lparr>
     loadcell = Loadcell_init,
     state = IDLE,
     maintenance_mode = OPERATIONAL,
     error_reservoir_stddev = False,
     error_bowl_stddev = False,
     error_loadcell_timeout = False,
     error_loadcell_disagree = False,
     error_loadcell_unreasonable = False,
     error_limit_switch = False,
     error_power_loss = True,
     grams_per_day = 60,
     deficit_ms_remain = 0,
     deficit_mg = 0,
     deficit_threshold_mg = 0,
     update_prev_millis = 0,
     millis_since_reservoir_read = 2147483647,
     millis_since_bowl_read = 2147483647,
     millis_since_feed_attempt = 0,
     millis_since_transition = 0,
     millis_since_mqtt_string_update = 0,
     state_retries = 0,
     feed_sensor_retries = 0,
     feed_jammed_retries = 0,
     feed_reservoir_pre = 0,
     feed_reservoir_post = 0,
     feed_bowl_pre = 0,
     feed_bowl_post = 0,
     feed_bowl_post_valid = False,
     feed_report = \<lparr> result = NONE, arg = 0, millis = 0 \<rparr>,
     reservoir_mean = 0,
     reservoir_stddev = Finite 0,
     bowl_mean = 0,
     bowl_stddev = Finite 0,
     mqtt_deficit = 0,
     mqtt_last_feed = 0,
     mqtt_grams_per_day = 0,
     mqtt_feeding = False,
     mqtt_maintenance = False,
     mqtt_jammed = False,
     mqtt_error = [],
     pin_motor = False \<rparr>"

definition error_reset :: "StateMachine \<Rightarrow> StateMachine" where
  "error_reset s = s\<lparr>
     error_reservoir_stddev := False,
     error_bowl_stddev := False,
     error_loadcell_timeout := False,
     error_loadcell_disagree := False,
     error_loadcell_unreasonable := False,
     error_limit_switch := False,
     error_power_loss := False \<rparr>"

definition loadcell_limp_mode :: "StateMachine \<Rightarrow> string option" where
  "loadcell_limp_mode s =
     (if error_loadcell_timeout s then Some ''Sensor timeout''
      else if error_reservoir_stddev s then Some ''Reservoir noisy''
      else if error_bowl_stddev s then Some ''Bowl noisy''
      else if error_loadcell_disagree s then Some ''Sensor disagree''
      else if error_loadcell_unreasonable s then Some ''Sensor sanity''
      else None)"

definition need_to_feed :: "StateMachine \<Rightarrow> FeedBlockReason" where
  "need_to_feed s =
     (case maintenance_mode s of
        MAINTENANCE \<Rightarrow> BLOCKED_MAINTENANCE
      | JAMMED \<Rightarrow> BLOCKED_JAMMED
      | OPERATIONAL \<Rightarrow>
          if deficit_mg s <s deficit_threshold_mg s then DEFICIT
          else if millis_since_feed_attempt s < FEED_COOLDOWN_MILLIS then COOLDOWN
          else NOT_BLOCKED)"

text \<open>The load cell session that \<open>transition\<close> starts on entering a state.\<close>

definition start_for_state :: "State \<Rightarrow> Loadcell \<Rightarrow> Loadcell" where
  "start_for_state new_state lc =
     (case new_state of
        IDLE_TARE_RESERVOIR \<Rightarrow> Loadcell_start RESERVOIR True lc
      | IDLE_TARE_BOWL \<Rightarrow> Loadcell_start BOWL True lc
      | IDLE_MEASURE_RESERVOIR \<Rightarrow> Loadcell_start RESERVOIR False lc
      | FEED_PRE_MEASURE_RESERVOIR \<Rightarrow> Loadcell_start RESERVOIR False lc
      | FEED_POST_MEASURE_RESERVOIR \<Rightarrow> Loadcell_start RESERVOIR False lc
      | IDLE_MEASURE_BOWL \<Rightarrow> Loadcell_start BOWL False lc
      | FEED_PRE_MEASURE_BOWL \<Rightarrow> Loadcell_start BOWL False lc
      | FEED_POST_MEASURE_BOWL \<Rightarrow> Loadcell_start BOWL False lc
      | _ \<Rightarrow> lc)"

definition transition :: "State \<Rightarrow> StateMachine \<Rightarrow> StateMachine" where
  "transition new_state s =
     s\<lparr> state_retries := (if new_state = state s then state_retries s + 1 else 0),
        loadcell := start_for_state new_state (loadcell s),
        millis_since_transition := 0,
        state := new_state \<rparr>"

definition handle_loadcell_readout :: "StateMachine \<Rightarrow> bool \<times> StateMachine" where
  "handle_loadcell_readout s =
     (if error_loadcell_timeout s \<or> 10000 < millis_since_transition s
      then (True, s\<lparr> error_loadcell_timeout := True \<rparr>)
      else if is_busy (loadcell s) then (False, s)
      else (True,
        (case sensor (loadcell s) of
           RESERVOIR \<Rightarrow>
             s\<lparr> reservoir_mean := mean (loadcell s),
                reservoir_stddev := stddev (loadcell s),
                millis_since_reservoir_read := 0 \<rparr>
         | BOWL \<Rightarrow>
             s\<lparr> bowl_mean := mean (loadcell s),
                bowl_stddev := stddev (loadcell s),
                millis_since_bowl_read := 0 \<rparr>)))"

text \<open>
  \<open>estimate_dispensed_weight_grams\<close>. Each difference, the sum and the quotient are
  binary32 operations; a difference or the sum of two finite floats can be an infinity.
  The value returned is finite (an infinity or a float that is not a number fails one of
  the tests before, lemma \<open>average_finite\<close> below), so the result is the number it holds.
\<close>

definition estimate_dispensed_weight_grams :: "StateMachine \<Rightarrow> real \<times> StateMachine" where
  "estimate_dispensed_weight_grams s =
     (if loadcell_limp_mode s \<noteq> None then (FEED_ASSUMED_WEIGHT_GRAMS, s)
      else
        let dispensed_reservoir =
              fsub (Finite (feed_reservoir_pre s)) (Finite (feed_reservoir_post s));
            dispensed_bowl = fsub (Finite (feed_bowl_post s)) (Finite (feed_bowl_pre s))
        in if fgt (fabs (fsub dispensed_reservoir dispensed_bowl)) (Finite FEED_MAX_DISAGREE_GRAMS)
           then (FEED_ASSUMED_WEIGHT_GRAMS, s\<lparr> error_loadcell_disagree := True \<rparr>)
           else
             let dispensed = fdiv (fadd dispensed_reservoir dispensed_bowl) (Finite 2.0)
             in if flt dispensed (Finite (- 2.0)) \<or>
                   fgt dispensed (fmul (Finite FEED_ASSUMED_WEIGHT_GRAMS) (Finite 3.0))
                then (FEED_ASSUMED_WEIGHT_GRAMS, s\<lparr> error_loadcell_unreasonable := True \<rparr>)
                else (value_of dispensed, s))"

text \<open>
  \<open>complete_feed\<close>; \<open>now\<close> is the clock read for the feed report. The threshold is the
  binary32 product of 9 and the binary32 number nearest to 0.3; the weight is at most 27
  (lemma \<open>estimate_range\<close> below), so its binary32 product with 1000 is finite and within
  the range of \<^verbatim>\<open>int\<close>.
\<close>

definition complete_feed :: "uint32_t \<Rightarrow> StateMachine \<Rightarrow> StateMachine" where
  "complete_feed now s =
     (let (dispensed_weight_grams, s1) = estimate_dispensed_weight_grams s;
          s2 = (if round_nearest (FEED_ASSUMED_WEIGHT_GRAMS * round_nearest 0.3)
                     < dispensed_weight_grams
                then
                  (let s1a = s1\<lparr> feed_jammed_retries := 0 \<rparr>
                   in if maintenance_mode s1a = JAMMED
                      then s1a\<lparr> maintenance_mode := OPERATIONAL \<rparr> else s1a)
                else
                  (let s1b = s1\<lparr> feed_jammed_retries := feed_jammed_retries s1 + 1 \<rparr>
                   in if FEED_MAX_RETRIES \<le> feed_jammed_retries s1b
                      then s1b\<lparr> maintenance_mode := JAMMED \<rparr> else s1b));
          dispensed_weight_mg = float_to_int (round_nearest (dispensed_weight_grams * 1000.0))
      in transition IDLE
           (s2\<lparr> deficit_mg := deficit_mg s2 - dispensed_weight_mg,
                millis_since_feed_attempt := 0,
                feed_sensor_retries := 0,
                feed_report := \<lparr> result = SUCCESS, arg = dispensed_weight_mg, millis = now \<rparr>,
                mqtt_last_feed := dispensed_weight_grams \<rparr>))"

definition get_error_report :: "StateMachine \<Rightarrow> ErrorReport" where
  "get_error_report s =
     (if error_limit_switch s then \<lparr> message = Some ''Motor timeout'', severity = ERROR \<rparr>
      else if loadcell_limp_mode s \<noteq> None
        then \<lparr> message = loadcell_limp_mode s, severity = ERROR \<rparr>
      else if error_power_loss s then \<lparr> message = Some ''Power loss'', severity = ERROR \<rparr>
      else if maintenance_mode s = JAMMED
        then \<lparr> message = Some ''Jammed/empty'', severity = ERROR \<rparr>
      else if feed_jammed_retries s \<noteq> 0
        then \<lparr> message = Some ''Jammed/empty?'', severity = WARNING \<rparr>
      else if reservoir_mean s < 250.0
        then \<lparr> message = Some ''Reservoir low'', severity = WARNING \<rparr>
      else \<lparr> message = None, severity = OKAY \<rparr>)"

text \<open>
  What one call of \<open>update\<close> reads from the hardware: the millisecond clock at the start
  of the call, the limit switch, whether the converter has a reading and the reading, and
  the clock read again when a feed report is written.
\<close>

record tick =
  now_millis :: uint32_t
  limit_switch :: bool
  hx_ready :: bool
  hx_value :: int32_t
  report_millis :: uint32_t

text \<open>
  The loop of \<open>update\<close> that turns elapsed time into deficit. The quotient is computed in
  every round, as in the source; the loop need not end, so its result is an option.
\<close>

partial_function (option) accrue_deficit ::
  "int32_t \<Rightarrow> int32_t \<Rightarrow> int32_t \<Rightarrow> (fault + int32_t \<times> int32_t) option" where
  "accrue_deficit gpd ms_remain mg =
     (if ms_remain <s 0
      then (if gpd = 0 then Some (Inl DivisionByZero)
            else accrue_deficit gpd (ms_remain + word_sdiv 86400 gpd) (mg + 1))
      else Some (Inr (ms_remain, mg)))"

definition update_deficit :: "int32_t \<Rightarrow> StateMachine \<Rightarrow> (fault + StateMachine) option" where
  "update_deficit delta_millis s =
     (case accrue_deficit (grams_per_day s) (deficit_ms_remain s - delta_millis) (deficit_mg s) of
        None \<Rightarrow> None
      | Some (Inl f) \<Rightarrow> Some (Inl f)
      | Some (Inr (r, m)) \<Rightarrow>
          Some (Inr (s\<lparr> deficit_ms_remain := r, deficit_mg := m,
                        mqtt_deficit :=
                          round_nearest (round_nearest (real_of_int (sint m)) / 1000.0) \<rparr>)))"

definition feeding_state :: "State \<Rightarrow> bool" where
  "feeding_state st =
     (case st of
        IDLE \<Rightarrow> False
      | IDLE_TARE_RESERVOIR_WAIT \<Rightarrow> False
      | IDLE_TARE_RESERVOIR \<Rightarrow> False
      | IDLE_TARE_BOWL \<Rightarrow> False
      | IDLE_MEASURE_RESERVOIR \<Rightarrow> False
      | IDLE_MEASURE_BOWL \<Rightarrow> False
      | _ \<Rightarrow> True)"

text \<open>The block "Update MQTT status"; \<open>force_update\<close> only decides what is sent.\<close>

definition update_mqtt_status :: "int32_t \<Rightarrow> StateMachine \<Rightarrow> StateMachine" where
  "update_mqtt_status delta_millis s =
     (let s1 = (if 5000 < millis_since_mqtt_string_update s
                then s\<lparr> millis_since_mqtt_string_update := 0 \<rparr>
                else s\<lparr> millis_since_mqtt_string_update :=
                          millis_since_mqtt_string_update s + delta_millis \<rparr>);
          er = get_error_report s1
      in s1\<lparr> mqtt_feeding := feeding_state (state s1),
             mqtt_maintenance := (maintenance_mode s1 = MAINTENANCE),
             mqtt_jammed := (maintenance_mode s1 = JAMMED),
             mqtt_error := (case message er of Some m \<Rightarrow> m | None \<Rightarrow> ''No error''),
             mqtt_grams_per_day := round_nearest (real_of_int (sint (grams_per_day s1))) \<rparr>)"

definition update_timers :: "int32_t \<Rightarrow> StateMachine \<Rightarrow> StateMachine" where
  "update_timers delta_millis s =
     s\<lparr> millis_since_reservoir_read := millis_since_reservoir_read s + delta_millis,
        millis_since_bowl_read := millis_since_bowl_read s + delta_millis,
        millis_since_feed_attempt := millis_since_feed_attempt s + delta_millis,
        millis_since_transition := millis_since_transition s + delta_millis \<rparr>"

definition feed :: "StateMachine \<Rightarrow> StateMachine" where
  "feed s = transition FEED_PRE_MEASURE_WAIT s"

subsection \<open>The cases of the switch in \<open>update\<close>\<close>

definition case_IDLE :: "StateMachine \<Rightarrow> StateMachine" where
  "case_IDLE s =
     (if need_to_feed s = NOT_BLOCKED then feed s
      else
        let sensor_read_cooldown =
              (if maintenance_mode s = MAINTENANCE then 0 else (5 * 60 * 1000 :: uint32_t))
        in if millis_since_bowl_read s < millis_since_reservoir_read s
           then (if sensor_read_cooldown < millis_since_reservoir_read s
                 then transition IDLE_MEASURE_RESERVOIR s else s)
           else (if sensor_read_cooldown < millis_since_bowl_read s
                 then transition IDLE_MEASURE_BOWL s else s))"

definition case_IDLE_TARE_RESERVOIR_WAIT :: "StateMachine \<Rightarrow> StateMachine" where
  "case_IDLE_TARE_RESERVOIR_WAIT s =
     (if 2000 < millis_since_transition s then transition IDLE_TARE_RESERVOIR s else s)"

text \<open>
  \<open>IDLE_TARE_RESERVOIR\<close>, and the shared body of \<open>IDLE_MEASURE_RESERVOIR\<close>,
  \<open>IDLE_TARE_BOWL\<close> and \<open>IDLE_MEASURE_BOWL\<close>, which is the same.
\<close>

definition case_IDLE_readout :: "StateMachine \<Rightarrow> StateMachine" where
  "case_IDLE_readout s =
     (let (done, s1) = handle_loadcell_readout s
      in if done then transition IDLE s1 else s1)"

definition case_FEED_PRE_MEASURE_WAIT :: "StateMachine \<Rightarrow> StateMachine" where
  "case_FEED_PRE_MEASURE_WAIT s =
     (if 2000 < millis_since_transition s then transition FEED_PRE_MEASURE_RESERVOIR s else s)"

text \<open>The abort of a feed after too much noise, shared by both pre-feed measurements.\<close>

definition sensor_retry_abort :: "uint32_t \<Rightarrow> StateMachine \<Rightarrow> StateMachine" where
  "sensor_retry_abort now s =
     (let n = feed_sensor_retries s + 1
      in transition IDLE
           (s\<lparr> millis_since_feed_attempt := 0,
               feed_sensor_retries := n,
               feed_report := \<lparr> result = SENSOR_RETRY, arg = ucast n, millis = now \<rparr> \<rparr>))"

definition case_FEED_PRE_MEASURE_RESERVOIR :: "tick \<Rightarrow> StateMachine \<Rightarrow> StateMachine" where
  "case_FEED_PRE_MEASURE_RESERVOIR t s =
     (let limp = (\<lambda>s'. transition FEED_PRE_MEASURE_BOWL (s'\<lparr> error_reservoir_stddev := True \<rparr>))
      in if loadcell_limp_mode s = None
         then
           (let (done, s1) = handle_loadcell_readout s
            in if \<not> done then s1
               else if flt (stddev (loadcell s1)) (Finite 1.0)
                 then transition FEED_PRE_MEASURE_BOWL
                        (s1\<lparr> feed_reservoir_pre := mean (loadcell s1) \<rparr>)
               else if state_retries s1 < 5 then transition (state s1) s1
               else if feed_sensor_retries s1 \<le> FEED_MAX_RETRIES
                 then sensor_retry_abort (report_millis t) s1
               else limp s1)
         else limp s)"

definition case_FEED_PRE_MEASURE_BOWL :: "tick \<Rightarrow> StateMachine \<Rightarrow> StateMachine" where
  "case_FEED_PRE_MEASURE_BOWL t s =
     (let limp = (\<lambda>s'. transition FEED_RUN_SYNC (s'\<lparr> error_bowl_stddev := True \<rparr>))
      in if loadcell_limp_mode s = None
         then
           (let (done, s1) = handle_loadcell_readout s
            in if \<not> done then s1
               else if flt (stddev (loadcell s1)) (Finite 1.0)
                 then transition FEED_RUN_SYNC (s1\<lparr> feed_bowl_pre := mean (loadcell s1) \<rparr>)
               else if state_retries s1 < 5 then transition (state s1) s1
               else if feed_sensor_retries s1 \<le> FEED_MAX_RETRIES
                 then sensor_retry_abort (report_millis t) s1
               else limp s1)
         else limp s)"

definition case_FEED_RUN_SYNC :: "bool \<Rightarrow> StateMachine \<Rightarrow> StateMachine" where
  "case_FEED_RUN_SYNC limit s =
     (if \<not> error_limit_switch s
      then (if \<not> limit then transition FEED_RUN_A s
            else if millis_since_transition s < FEED_RUN_TIMEOUT_MILLIS then s
            else transition FEED_POST_WAIT (s\<lparr> error_limit_switch := True \<rparr>))
      else (if FEED_RUN_LIMP_MILLIS < millis_since_transition s
            then transition FEED_POST_WAIT s else s))"

definition case_FEED_RUN_A :: "bool \<Rightarrow> StateMachine \<Rightarrow> StateMachine" where
  "case_FEED_RUN_A limit s =
     (if limit \<and> 50 < millis_since_transition s then transition FEED_RUN_B s
      else if millis_since_transition s < FEED_RUN_TIMEOUT_MILLIS then s
      else transition FEED_POST_WAIT (s\<lparr> error_limit_switch := True \<rparr>))"

definition case_FEED_RUN_B :: "bool \<Rightarrow> StateMachine \<Rightarrow> StateMachine" where
  "case_FEED_RUN_B limit s =
     (if \<not> limit \<and> 50 < millis_since_transition s then transition FEED_RUN_C s
      else if millis_since_transition s < FEED_RUN_TIMEOUT_MILLIS then s
      else transition FEED_POST_WAIT (s\<lparr> error_limit_switch := True \<rparr>))"

definition case_FEED_RUN_C :: "StateMachine \<Rightarrow> StateMachine" where
  "case_FEED_RUN_C s =
     (if FEED_RUN_POST_MILLIS < millis_since_transition s then transition FEED_POST_WAIT s else s)"

definition case_FEED_POST_WAIT :: "StateMachine \<Rightarrow> StateMachine" where
  "case_FEED_POST_WAIT s =
     (if FEED_TO_MEASURE_MILLIS < millis_since_transition s
      then transition FEED_POST_MEASURE_BOWL s else s)"

definition case_FEED_POST_MEASURE_BOWL :: "StateMachine \<Rightarrow> StateMachine" where
  "case_FEED_POST_MEASURE_BOWL s =
     (let limp = (\<lambda>s'. transition FEED_POST_MEASURE_RESERVOIR (s'\<lparr> error_bowl_stddev := True \<rparr>))
      in if loadcell_limp_mode s = None
         then
           (let (done, s1) = handle_loadcell_readout s
            in if \<not> done then s1
               else if flt (stddev (loadcell s1)) (Finite 1.0)
                 then transition FEED_POST_MEASURE_RESERVOIR
                        (s1\<lparr> feed_bowl_post := mean (loadcell s1) \<rparr>)
               else if state_retries s1 < 5 then transition (state s1) s1
               else limp s1)
         else limp s)"

definition case_FEED_POST_MEASURE_RESERVOIR :: "tick \<Rightarrow> StateMachine \<Rightarrow> StateMachine" where
  "case_FEED_POST_MEASURE_RESERVOIR t s =
     (let limp = (\<lambda>s'. complete_feed (report_millis t) (s'\<lparr> error_reservoir_stddev := True \<rparr>))
      in if loadcell_limp_mode s = None
         then
           (let (done, s1) = handle_loadcell_readout s
            in if \<not> done then s1
               else if flt (stddev (loadcell s1)) (Finite 1.0)
                 then complete_feed (report_millis t)
                        (s1\<lparr> feed_reservoir_post := mean (loadcell s1) \<rparr>)
               else if state_retries s1 < 5 then transition (state s1) s1
               else limp s1)
         else limp s)"

text \<open>The switch: the new state, and the level for the motor pin.\<close>

definition handle_state :: "tick \<Rightarrow> StateMachine \<Rightarrow> bool \<times> StateMachine" where
  "handle_state t s =
     (case state s of
        IDLE \<Rightarrow> (False, case_IDLE s)
      | IDLE_TARE_RESERVOIR_WAIT \<Rightarrow> (False, case_IDLE_TARE_RESERVOIR_WAIT s)
      | IDLE_TARE_RESERVOIR \<Rightarrow> (False, case_IDLE_readout s)
      | IDLE_MEASURE_RESERVOIR \<Rightarrow> (False, case_IDLE_readout s)
      | IDLE_TARE_BOWL \<Rightarrow> (False, case_IDLE_readout s)
      | IDLE_MEASURE_BOWL \<Rightarrow> (False, case_IDLE_readout s)
      | FEED_PRE_MEASURE_WAIT \<Rightarrow> (False, case_FEED_PRE_MEASURE_WAIT s)
      | FEED_PRE_MEASURE_RESERVOIR \<Rightarrow> (False, case_FEED_PRE_MEASURE_RESERVOIR t s)
      | FEED_PRE_MEASURE_BOWL \<Rightarrow> (False, case_FEED_PRE_MEASURE_BOWL t s)
      | FEED_RUN_SYNC \<Rightarrow> (True, case_FEED_RUN_SYNC (limit_switch t) s)
      | FEED_RUN_A \<Rightarrow> (True, case_FEED_RUN_A (limit_switch t) s)
      | FEED_RUN_B \<Rightarrow> (True, case_FEED_RUN_B (limit_switch t) s)
      | FEED_RUN_C \<Rightarrow> (True, case_FEED_RUN_C s)
      | FEED_POST_WAIT \<Rightarrow> (False, case_FEED_POST_WAIT s)
      | FEED_POST_MEASURE_BOWL \<Rightarrow> (False, case_FEED_POST_MEASURE_BOWL s)
      | FEED_POST_MEASURE_RESERVOIR \<Rightarrow> (False, case_FEED_POST_MEASURE_RESERVOIR t s))"

text \<open>What follows the deficit loop in \<open>update\<close>.\<close>

definition update_tail :: "tick \<Rightarrow> int32_t \<Rightarrow> StateMachine \<Rightarrow> StateMachine" where
  "update_tail t delta_millis s =
     (let s1 = update_mqtt_status delta_millis s;
          s2 = update_timers delta_millis s1;
          (motor, s3) = handle_state t s2
      in s3\<lparr> pin_motor := motor \<rparr>)"

text \<open>
  \<open>StateMachine::update\<close>: \<open>None\<close> when the deficit loop does not end, \<open>Some (Inl f)\<close> when
  the call stops at the fault \<open>f\<close>, \<open>Some (Inr s')\<close> when it returns with the state \<open>s'\<close>.
\<close>

definition update :: "tick \<Rightarrow> StateMachine \<Rightarrow> (fault + StateMachine) option" where
  "update t s =
     (case Loadcell_update (hx_ready t) (hx_value t) (loadcell s) of
        Inl f \<Rightarrow> Some (Inl f)
      | Inr lc \<Rightarrow>
          let s1 = s\<lparr> loadcell := lc \<rparr>;
              delta_millis = now_millis t - update_prev_millis s1;
              s2 = s1\<lparr> update_prev_millis := now_millis t \<rparr>
          in (case update_deficit delta_millis s2 of
                None \<Rightarrow> None
              | Some (Inl f) \<Rightarrow> Some (Inl f)
              | Some (Inr s3) \<Rightarrow> Some (Inr (update_tail t delta_millis s3))))"

subsection \<open>The commands\<close>

text \<open>\<open>StateMachine::begin\<close>; \<open>now\<close> is the clock.\<close>

definition StateMachine_begin :: "uint32_t \<Rightarrow> StateMachine \<Rightarrow> StateMachine" where
  "StateMachine_begin now s =
     s\<lparr> pin_motor := False,
        loadcell := set_tare_raw BOWL 31485 (set_tare_raw RESERVOIR (- 754589) (loadcell s)),
        update_prev_millis := now \<rparr>"

definition enter_maintenance :: "StateMachine \<Rightarrow> StateMachine" where
  "enter_maintenance s = transition IDLE ((error_reset s)\<lparr> maintenance_mode := MAINTENANCE \<rparr>)"

text \<open>\<open>StateMachine::tare_reservoir\<close> and \<open>StateMachine::tare_bowl\<close>.\<close>

definition tare_reservoir_command :: "StateMachine \<Rightarrow> StateMachine" where
  "tare_reservoir_command s =
     transition IDLE_TARE_RESERVOIR_WAIT (s\<lparr> maintenance_mode := MAINTENANCE \<rparr>)"

definition tare_bowl_command :: "StateMachine \<Rightarrow> StateMachine" where
  "tare_bowl_command s = transition IDLE_TARE_BOWL (s\<lparr> maintenance_mode := MAINTENANCE \<rparr>)"

definition reset :: "StateMachine \<Rightarrow> StateMachine" where
  "reset s =
     (transition IDLE ((error_reset s)\<lparr> maintenance_mode := OPERATIONAL \<rparr>))
       \<lparr> state_retries := 0, feed_jammed_retries := 0, feed_sensor_retries := 0 \<rparr>"

definition adjust_deficit :: "int32_t \<Rightarrow> StateMachine \<Rightarrow> StateMachine" where
  "adjust_deficit milligrams s = s\<lparr> deficit_mg := deficit_mg s + milligrams \<rparr>"

definition set_grams_per_day :: "int32_t \<Rightarrow> StateMachine \<Rightarrow> StateMachine" where
  "set_grams_per_day new_grams_per_day s = s\<lparr> grams_per_day := new_grams_per_day \<rparr>"

subsection \<open>The callers (main.cpp, ui.cpp)\<close>

text \<open>
  The calls that \<open>loop\<close> and \<open>UserInterface::update\<close> make on the state machine, and a
  run of such calls from a given state. A run stops at the first call that does not return.
\<close>

datatype command =
    Update tick
  | Feed
  | TareReservoir
  | TareBowl
  | AdjustDeficit int32_t
  | SetGramsPerDay int32_t
  | Reset
  | EnterMaintenance

fun apply_command :: "command \<Rightarrow> StateMachine \<Rightarrow> (fault + StateMachine) option" where
  "apply_command (Update t) s = update t s"
| "apply_command Feed s = Some (Inr (feed s))"
| "apply_command TareReservoir s = Some (Inr (tare_reservoir_command s))"
| "apply_command TareBowl s = Some (Inr (tare_bowl_command s))"
| "apply_command (AdjustDeficit mg) s = Some (Inr (adjust_deficit mg s))"
| "apply_command (SetGramsPerDay g) s = Some (Inr (set_grams_per_day g s))"
| "apply_command Reset s = Some (Inr (reset s))"
| "apply_command EnterMaintenance s = Some (Inr (enter_maintenance s))"

fun run :: "command list \<Rightarrow> StateMachine \<Rightarrow> (fault + StateMachine) option" where
  "run [] s = Some (Inr s)"
| "run (c # cs) s =
     (case apply_command c s of
        None \<Rightarrow> None
      | Some (Inl f) \<Rightarrow> Some (Inl f)
      | Some (Inr s') \<Rightarrow> run cs s')"

section \<open>Specification-side notions\<close>

text \<open>
  \<open>accrued gpd r mg k y\<close>: starting the deficit loop at countdown \<open>r\<close> and deficit \<open>mg\<close>,
  \<open>k\<close> rounds lead to the pair \<open>y\<close>; the countdown was negative before each of the \<open>k\<close>
  rounds and is not negative after the last.
\<close>

definition accrued :: "int32_t \<Rightarrow> int32_t \<Rightarrow> int32_t \<Rightarrow> nat \<Rightarrow> int32_t \<times> int32_t \<Rightarrow> bool" where
  "accrued gpd r mg k y \<longleftrightarrow>
     y = (r + of_nat k * word_sdiv 86400 gpd, mg + of_nat k) \<and>
     \<not> fst y <s 0 \<and>
     (\<forall>j<k. r + of_nat j * word_sdiv 86400 gpd <s 0)"

definition accrue_post :: "int32_t \<Rightarrow> int32_t \<Rightarrow> int32_t \<Rightarrow> fault + int32_t \<times> int32_t \<Rightarrow> bool" where
  "accrue_post gpd r mg res =
     (case res of
        Inl f \<Rightarrow> gpd = 0 \<and> f = DivisionByZero
      | Inr y \<Rightarrow> \<exists>k. accrued gpd r mg k y)"

text \<open>
  The reporting policy in the words of the specification: the conditions in their fixed
  priority, each with its report, and the first one that holds wins.
\<close>

definition spec_error_priority :: "StateMachine \<Rightarrow> (bool \<times> ErrorReport) list" where
  "spec_error_priority s =
     [ (error_limit_switch s, \<lparr> message = Some ''Motor timeout'', severity = ERROR \<rparr>),
       (error_loadcell_timeout s \<or> error_reservoir_stddev s \<or> error_bowl_stddev s \<or>
          error_loadcell_disagree s \<or> error_loadcell_unreasonable s,
        \<lparr> message = loadcell_limp_mode s, severity = ERROR \<rparr>),
       (error_power_loss s, \<lparr> message = Some ''Power loss'', severity = ERROR \<rparr>),
       (maintenance_mode s = JAMMED, \<lparr> message = Some ''Jammed/empty'', severity = ERROR \<rparr>),
       (feed_jammed_retries s \<noteq> 0, \<lparr> message = Some ''Jammed/empty?'', severity = WARNING \<rparr>),
       (reservoir_mean s < 250, \<lparr> message = Some ''Reservoir low'', severity = WARNING \<rparr>) ]"

fun first_match :: "(bool \<times> 'a) list \<Rightarrow> 'a \<Rightarrow> 'a" where
  "first_match [] d = d"
| "first_match ((c, r) # xs) d = (if c then r else first_match xs d)"

section \<open>Example inputs\<close>

text \<open>A call of \<open>update\<close> one millisecond after start, with nothing from the hardware.\<close>

definition tick_1ms :: tick where
  "tick_1ms = \<lparr> now_millis = 1, limit_switch = False, hx_ready = False, hx_value = 0,
                report_millis = 1 \<rparr>"

text \<open>A call of \<open>update\<close> at start with the limit switch asserted.\<close>

definition tick_limit :: tick where
  "tick_limit = \<lparr> now_millis = 0, limit_switch = True, hx_ready = False, hx_value = 0,
                  report_millis = 0 \<rparr>"

text \<open>
  The end of a feed: 500 g in the reservoir and 10 g in the bowl before, 19 g in the bowl
  after, and a quiet reading of 491 g from the reservoir waiting to be taken; 9000 mg of
  deficit.
\<close>

definition example_post_feed :: StateMachine where
  "example_post_feed = StateMachine_init\<lparr>
     state := FEED_POST_MEASURE_RESERVOIR,
     loadcell := Loadcell_init\<lparr> mean := 491, stddev := Finite 0.5 \<rparr>,
     feed_reservoir_pre := 500, feed_bowl_pre := 10, feed_bowl_post := 19,
     deficit_mg := 9000, mqtt_deficit := 9 \<rparr>"

text \<open>Calls of \<open>update\<close> one minute and five minutes after start, with nothing from the hardware.\<close>

definition tick_1min :: tick where
  "tick_1min = \<lparr> now_millis = 60000, limit_switch = False, hx_ready = False, hx_value = 0,
     report_millis = 60000 \<rparr>"

definition tick_5min :: tick where
  "tick_5min = \<lparr> now_millis = 300000, limit_switch = False, hx_ready = False, hx_value = 0,
     report_millis = 300000 \<rparr>"

text \<open>
  A pre-feed reservoir measurement that has come out noisy for the sixth time in the state,
  after \<open>n\<close> aborted feeds, with a deficit of \<open>d\<close> milligrams.
\<close>

definition example_noisy :: "uint16_t \<Rightarrow> int32_t \<Rightarrow> StateMachine" where
  "example_noisy n d = StateMachine_init\<lparr>
     state := FEED_PRE_MEASURE_RESERVOIR,
     loadcell := Loadcell_init\<lparr> stddev := Finite 2 \<rparr>,
     state_retries := 5, feed_sensor_retries := n,
     deficit_mg := d,
     mqtt_deficit := round_nearest (round_nearest (real_of_int (sint d)) / 1000) \<rparr>"

section \<open>Evaluating binary32 operations\<close>

lemma quantum_search_eq:
  "e0 \<le> e \<Longrightarrow> e \<le> 104 \<Longrightarrow> a < 2 powi (e + 24) \<Longrightarrow> (e0 < e \<longrightarrow> 2 powi (e + 23) \<le> a) \<Longrightarrow>
   quantum_search a e0 = e"
proof (induction "nat (e - e0)" arbitrary: e0)
  case 0
  then have "e0 = e" by simp
  with 0 show ?case by (subst quantum_search.simps) simp
next
  case (Suc n)
  then have lt: "e0 < e" by linarith
  with Suc.prems have a: "2 powi (e + 23) \<le> a" by simp
  have "(2::real) powi (e0 + 24) \<le> 2 powi (e + 23)"
    using lt by (intro power_int_increasing) auto
  with a have b: "2 powi (e0 + 24) \<le> a" by linarith
  have "quantum_search a (e0 + 1) = e"
    using Suc.hyps(2) Suc.prems lt by (intro Suc.hyps(1)) auto
  with b lt Suc.prems show ?case by (subst quantum_search.simps) simp
qed

lemma quantum_search_le:
  "e0 \<le> e \<Longrightarrow> a < 2 powi (e + 24) \<Longrightarrow> quantum_search a e0 \<le> e"
proof (induction "nat (e - e0)" arbitrary: e0)
  case 0
  then have "e0 = e" by simp
  with 0 show ?case by (subst quantum_search.simps) simp
next
  case (Suc n)
  then have lt: "e0 < e" by linarith
  have "quantum_search a (e0 + 1) \<le> e"
    using Suc.hyps(2) Suc.prems lt by (intro Suc.hyps(1)) auto
  with lt show ?case by (subst quantum_search.simps) simp
qed

text \<open>
  Rounding a number of which the binade is known: \<open>e\<close> is the exponent of the spacing
  when \<open>2 ^ (e + 23) \<le> \<bar>x\<bar> < 2 ^ (e + 24)\<close>, or when \<open>e = -149\<close> and \<open>\<bar>x\<bar> < 2 ^ -125\<close>.
\<close>

lemma round_nearest_eval:
  assumes "- 149 \<le> e" "e \<le> 104" "\<bar>x\<bar> < 2 powi (e + 24)" "- 149 < e \<longrightarrow> 2 powi (e + 23) \<le> \<bar>x\<bar>"
  shows "round_nearest x = of_int (round_even (x / 2 powi e)) * 2 powi e"
proof -
  have "quantum_exp x = e"
    unfolding quantum_exp_def using assms by (intro quantum_search_eq) auto
  then show ?thesis by (simp add: round_nearest_def)
qed

lemma round_even_of_int [simp]: "round_even (of_int n) = n"
  by (simp add: round_even_def)

lemma round_even_error: "\<bar>of_int (round_even x) - x\<bar> \<le> 1 / 2"
  unfolding round_even_def Let_def by (auto simp: abs_if) linarith+

text \<open>The distance from a number to its rounding is at most half the spacing.\<close>

lemma round_nearest_error: "\<bar>round_nearest x - x\<bar> \<le> 2 powi quantum_exp x / 2"
proof -
  let ?q = "(2::real) powi quantum_exp x"
  have q: "0 < ?q" by simp
  have "round_nearest x - x = (of_int (round_even (x / ?q)) - x / ?q) * ?q"
    using q by (simp add: round_nearest_def field_simps)
  then have "\<bar>round_nearest x - x\<bar> = \<bar>of_int (round_even (x / ?q)) - x / ?q\<bar> * ?q"
    using q by (simp add: abs_mult)
  also have "\<dots> \<le> 1 / 2 * ?q"
    using round_even_error [of "x / ?q"] q by (intro mult_right_mono) auto
  finally show ?thesis by simp
qed

lemma round_even_numerals [simp]:
  "round_even 0 = 0" "round_even 1 = 1" "round_even (numeral n) = numeral n"
  "round_even (- numeral n) = - numeral n"
  using round_even_of_int [of 0] round_even_of_int [of 1] round_even_of_int [of "numeral n"]
    round_even_of_int [of "- numeral n"]
  by simp_all

lemma round_nearest_0 [simp]: "round_nearest 0 = 0"
  by (simp add: round_nearest_def)

text \<open>The constants of the source.\<close>

lemma round_nearest_consts:
  "round_nearest 1 = 1" "round_nearest 2 = 2" "round_nearest 5 = 5" "round_nearest 9 = 9"
  "round_nearest 27 = 27" "round_nearest 32 = 32" "round_nearest 1000 = 1000"
  "round_nearest 9000 = 9000"
proof -
  show "round_nearest 1 = 1"
    by (subst round_nearest_eval [where e = "- 23"]) simp_all
  show "round_nearest 2 = 2"
    by (subst round_nearest_eval [where e = "- 22"]) simp_all
  show "round_nearest 5 = 5"
    by (subst round_nearest_eval [where e = "- 21"]) simp_all
  show "round_nearest 9 = 9"
    by (subst round_nearest_eval [where e = "- 20"]) simp_all
  show "round_nearest 27 = 27"
    by (subst round_nearest_eval [where e = "- 19"]) simp_all
  show "round_nearest 32 = 32"
    by (subst round_nearest_eval [where e = "- 18"]) simp_all
  show "round_nearest 1000 = 1000"
    by (subst round_nearest_eval [where e = "- 14"]) simp_all
  show "round_nearest 9000 = 9000"
    by (subst round_nearest_eval [where e = "- 10"]) simp_all
qed

text \<open>
  \<open>0.3f\<close> is \<open>10066330 / 2 ^ 25\<close>, and the product \<open>9.0f * 0.3f\<close>, the weight up to which a
  feed counts as jammed, is \<open>11324621 / 2 ^ 22\<close>, a little above 2.7; it is also the
  binary32 number nearest to 2.7.
\<close>

lemma round_nearest_3_10: "round_nearest 0.3 = 10066330 / 33554432"
  by (subst round_nearest_eval [where e = "- 25"]) (simp_all add: round_even_def)

lemma jam_threshold:
  "round_nearest (FEED_ASSUMED_WEIGHT_GRAMS * round_nearest 0.3) = 11324621 / 4194304"
  unfolding round_nearest_3_10 FEED_ASSUMED_WEIGHT_GRAMS_def
  by (subst round_nearest_eval [where e = "- 22"]) (simp_all add: round_even_def)


text \<open>No operation yields a float that is not a number from numbers.\<close>

lemma round32_cases:
  obtains (finite) "round32 x = Finite (round_nearest x)" "\<bar>round_nearest x\<bar> < 2 powi 128"
  | (pinf) "round32 x = PInf" | (ninf) "round32 x = NInf"
  unfolding round32_def Let_def
  by (cases "2 powi 128 \<le> \<bar>round_nearest x\<bar>"; cases "0 < round_nearest x") auto

lemma round32_consts:
  "round32 0 = Finite 0" "round32 27 = Finite 27"
  by (simp_all add: round32_def round_nearest_consts)

lemma fsub_Finite: "fsub (Finite x) (Finite y) = round32 (x - y)"
  by (simp add: fsub_def)
text \<open>
  The gains as floats, and a reading of the reservoir that is 99999 raw units below the
  tare: the weight is the float \<open>6727311 / 2 ^ 15\<close>, where the product with the decimal
  gain would be 205.30122527.
\<close>

lemma gain_values:
  "GAIN_RESERVOIR = - 8817709 / 4294967296" "GAIN_BOWL = 13860319 / 4294967296"
proof -
  show "GAIN_RESERVOIR = - 8817709 / 4294967296"
    unfolding GAIN_RESERVOIR_def
    by (subst round_nearest_eval [where e = "- 32"]) (simp_all add: round_even_def)
  show "GAIN_BOWL = 13860319 / 4294967296"
    unfolding GAIN_BOWL_def
    by (subst round_nearest_eval [where e = "- 32"]) (simp_all add: round_even_def)
qed

lemma reservoir_weight_example:
  "round_nearest (round_nearest (real_of_int (sint (- 854588 - (- 754589) :: int32_t)))
     * GAIN_RESERVOIR) = 6727311 / 32768"
proof -
  have "sint (- 854588 - (- 754589) :: int32_t) = - 99999" by simp
  moreover have "round_nearest (- 99999) = - 99999"
    by (subst round_nearest_eval [where e = "- 7"]) simp_all
  moreover have "round_nearest (- 99999 * (- 8817709 / 4294967296)) = 6727311 / 32768"
    by (subst round_nearest_eval [where e = "- 16"]) (simp_all add: round_even_def)
  ultimately show ?thesis by (simp add: gain_values)
qed


section \<open>The estimate is a finite weight\<close>

lemma estimate_unfold:
  assumes "loadcell_limp_mode s = None"
  shows "estimate_dispensed_weight_grams s =
    (if fgt (fabs (fsub (round32 (feed_reservoir_pre s - feed_reservoir_post s))
                        (round32 (feed_bowl_post s - feed_bowl_pre s)))) (Finite 5)
     then (9, s\<lparr> error_loadcell_disagree := True \<rparr>)
     else if flt (fdiv (fadd (round32 (feed_reservoir_pre s - feed_reservoir_post s))
                             (round32 (feed_bowl_post s - feed_bowl_pre s))) (Finite 2))
                 (Finite (- 2)) \<or>
             fgt (fdiv (fadd (round32 (feed_reservoir_pre s - feed_reservoir_post s))
                             (round32 (feed_bowl_post s - feed_bowl_pre s))) (Finite 2))
                 (Finite 27)
     then (9, s\<lparr> error_loadcell_unreasonable := True \<rparr>)
     else (value_of (fdiv (fadd (round32 (feed_reservoir_pre s - feed_reservoir_post s))
                                (round32 (feed_bowl_post s - feed_bowl_pre s))) (Finite 2)), s))"
  using assms
  by (simp add: estimate_dispensed_weight_grams_def FEED_MAX_DISAGREE_GRAMS_def
      FEED_ASSUMED_WEIGHT_GRAMS_def Let_def fsub_Finite round32_consts)

text \<open>
  An average that passes the three tests is a number between -2 and 27: an infinite
  difference fails the first test, as do two infinite differences of opposite sign.
\<close>

lemma average_finite:
  assumes "\<not> fgt (fabs (fsub (round32 a) (round32 b))) (Finite 5)"
    and "\<not> flt (fdiv (fadd (round32 a) (round32 b)) (Finite 2)) (Finite (- 2))"
    and "\<not> fgt (fdiv (fadd (round32 a) (round32 b)) (Finite 2)) (Finite 27)"
  shows "\<exists>w. fdiv (fadd (round32 a) (round32 b)) (Finite 2) = Finite w \<and> - 2 \<le> w \<and> w \<le> 27"
proof -
  obtain x where x: "round32 a = Finite x"
    using assms by (cases a rule: round32_cases; cases b rule: round32_cases)
      (auto simp: fgt_def fsub_def)
  obtain y where y: "round32 b = Finite y"
    using assms by (cases a rule: round32_cases; cases b rule: round32_cases)
      (auto simp: fgt_def fsub_def)
  show ?thesis
  proof (cases "x + y" rule: round32_cases)
    case finite
    then show ?thesis
      using assms(2,3) unfolding x y
      by (cases "round_nearest (x + y) / 2" rule: round32_cases) (auto simp: fgt_def)
  next
    case pinf
    with assms(3) show ?thesis unfolding x y by (simp add: fgt_def)
  next
    case ninf
    with assms(2) show ?thesis unfolding x y by simp
  qed
qed

lemma estimate_range:
  "- 2 \<le> fst (estimate_dispensed_weight_grams s) \<and> fst (estimate_dispensed_weight_grams s) \<le> 27"
proof (cases "loadcell_limp_mode s = None")
  case False
  then show ?thesis
    by (simp add: estimate_dispensed_weight_grams_def FEED_ASSUMED_WEIGHT_GRAMS_def)
next
  case True
  show ?thesis
    unfolding estimate_unfold [OF True]
    using average_finite [of "feed_reservoir_pre s - feed_reservoir_post s"
        "feed_bowl_post s - feed_bowl_pre s"]
    by (auto split: if_splits)
qed

text \<open>
  So the product of the estimate with 1000 is below \<open>2 ^ 15\<close>, where the spacing of the
  floats is at most \<open>2 ^ -9\<close>: the rounded product is within 27001 and its conversion to
  a 32-bit integer is the integer itself.
\<close>

lemma dispensed_mg_range:
  assumes "- 2 \<le> w" "w \<le> 27"
  shows "\<bar>round_nearest (w * 1000)\<bar> \<le> 27001"
proof -
  have "\<bar>w * 1000\<bar> < 2 powi (- 9 + 24)" using assms by (simp add: abs_if)
  then have "quantum_exp (w * 1000) \<le> - 9"
    unfolding quantum_exp_def by (intro quantum_search_le) auto
  then have "(2::real) powi quantum_exp (w * 1000) \<le> 2 powi (- 9)"
    by (intro power_int_increasing) auto
  with round_nearest_error [of "w * 1000"]
  have "\<bar>round_nearest (w * 1000) - w * 1000\<bar> \<le> 1" by simp
  with assms show ?thesis by (simp add: abs_if split: if_splits)
qed

lemma sint_float_to_int:
  assumes "\<bar>x\<bar> \<le> 27001"
  shows "sint (float_to_int x) = (if 0 \<le> x then \<lfloor>x\<rfloor> else \<lceil>x\<rceil>)"
proof -
  let ?i = "if 0 \<le> x then \<lfloor>x\<rfloor> else \<lceil>x\<rceil>"
  from assms have "- 27001 \<le> x" "x \<le> 27001" by (simp_all add: abs_if split: if_splits)
  then have "- 27001 \<le> ?i" "?i \<le> 27001"
    by (auto simp: le_floor_iff floor_le_iff ceiling_le_iff le_ceiling_iff)
  then have "- (2 ^ 31) \<le> ?i" "?i < 2 ^ 31" by simp_all
  then have "sint (word_of_int ?i :: int32_t) = ?i"
    by (simp only: sint_sbintrunc') (simp add: signed_take_bit_int_eq_self)
  then show ?thesis by (simp add: float_to_int_def)
qed

section \<open>The deficit loop\<close>

lemma accrue_deficit_done: "\<not> r <s 0 \<Longrightarrow> accrue_deficit gpd r mg = Some (Inr (r, mg))"
  by (subst accrue_deficit.simps) simp

lemma accrue_deficit_zero: "r <s 0 \<Longrightarrow> accrue_deficit 0 r mg = Some (Inl DivisionByZero)"
  by (subst accrue_deficit.simps) simp

lemma accrue_deficit_step:
  "r <s 0 \<Longrightarrow> gpd \<noteq> 0 \<Longrightarrow>
   accrue_deficit gpd r mg = accrue_deficit gpd (r + word_sdiv 86400 gpd) (mg + 1)"
  by (subst accrue_deficit.simps) simp

lemma accrued_Suc:
  assumes "r <s 0" and "accrued gpd (r + word_sdiv 86400 gpd) (mg + 1) k y"
  shows "accrued gpd r mg (Suc k) y"
proof -
  let ?st = "word_sdiv 86400 gpd"
  have e: "r + ?st + of_nat i * ?st = r + of_nat (Suc i) * ?st" for i
    by (simp add: algebra_simps)
  have neg: "r + of_nat j * ?st <s 0" if "j < Suc k" for j
  proof (cases j)
    case 0
    with assms(1) show ?thesis by simp
  next
    case (Suc i)
    with that have "i < k" by simp
    with assms(2) have "(r + ?st) + of_nat i * ?st <s 0"
      unfolding accrued_def by blast
    with Suc show ?thesis by (simp only: e)
  qed
  from assms(2) have y: "y = (r + ?st + of_nat k * ?st, mg + 1 + of_nat k)" and "\<not> fst y <s 0"
    unfolding accrued_def by blast+
  moreover have "mg + 1 + of_nat k = mg + of_nat (Suc k)"
    by simp
  ultimately have "y = (r + of_nat (Suc k) * ?st, mg + of_nat (Suc k))"
    by (simp only: e)
  with neg \<open>\<not> fst y <s 0\<close> show ?thesis unfolding accrued_def by blast
qed

text \<open>Whatever the loop returns is the outcome of some number of rounds.\<close>

lemma accrue_deficit_result:
  assumes "accrue_deficit gpd r mg = Some res"
  shows "accrue_post gpd r mg res"
proof (rule accrue_deficit.raw_induct [where P = accrue_post, OF _ assms])
  fix f and gpd r mg :: int32_t and res
  assume IH: "\<And>a b c y. f a b c = Some y \<Longrightarrow> accrue_post a b c y"
    and body: "(if r <s 0
                then if gpd = 0 then Some (Inl DivisionByZero)
                     else f gpd (r + word_sdiv 86400 gpd) (mg + 1)
                else Some (Inr (r, mg))) = Some res"
  show "accrue_post gpd r mg res"
  proof (cases "r <s 0")
    case False
    with body have "res = Inr (r, mg)" by simp
    moreover from False have "accrued gpd r mg 0 (r, mg)" by (simp add: accrued_def)
    ultimately show ?thesis unfolding accrue_post_def by auto
  next
    case True
    show ?thesis
    proof (cases "gpd = 0")
      case True
      with \<open>r <s 0\<close> body show ?thesis by (auto simp: accrue_post_def)
    next
      case False
      with True body have "f gpd (r + word_sdiv 86400 gpd) (mg + 1) = Some res"
        by simp
      from IH [OF this] True False show ?thesis
        by (auto simp: accrue_post_def split: sum.splits intro: accrued_Suc)
    qed
  qed
qed

text \<open>With a quotient of zero the loop, once entered, does not end.\<close>

lemma accrue_deficit_diverges:
  assumes "r <s 0" "gpd \<noteq> 0" "word_sdiv 86400 gpd = 0"
  shows "accrue_deficit gpd r mg = None"
proof (rule ccontr)
  assume "accrue_deficit gpd r mg \<noteq> None"
  then obtain res where res: "accrue_deficit gpd r mg = Some res" by blast
  have "\<not> (r <s 0 \<and> gpd \<noteq> 0 \<and> word_sdiv 86400 gpd = 0)"
  proof (rule accrue_deficit.raw_induct
      [where P = "\<lambda>gpd r mg res. \<not> (r <s 0 \<and> gpd \<noteq> 0 \<and> word_sdiv 86400 gpd = 0)", OF _ res])
    fix f and gpd r mg :: int32_t and res :: "fault + int32_t \<times> int32_t"
    assume IH: "\<And>a b c y. f a b c = Some y \<Longrightarrow> \<not> (b <s 0 \<and> a \<noteq> 0 \<and> word_sdiv 86400 a = 0)"
      and body: "(if r <s 0
                  then if gpd = 0 then Some (Inl DivisionByZero)
                       else f gpd (r + word_sdiv 86400 gpd) (mg + 1)
                  else Some (Inr (r, mg))) = Some res"
    show "\<not> (r <s 0 \<and> gpd \<noteq> 0 \<and> word_sdiv 86400 gpd = 0)"
    proof
      assume a: "r <s 0 \<and> gpd \<noteq> 0 \<and> word_sdiv 86400 gpd = 0"
      with body have "f gpd r (mg + 1) = Some res" by simp
      from IH [OF this] a show False by blast
    qed
  qed
  with assms show False by blast
qed

lemma sint_add_neg_pos:
  fixes a b :: int32_t
  assumes "sint a < 0" "0 \<le> sint b"
  shows "sint (a + b) = sint a + sint b"
proof -
  have "- (2 ^ 31) \<le> sint a" "sint b < 2 ^ 31"
    using sint_ge [of a] sint_lt [of b] by simp_all
  with assms show ?thesis
    by (simp add: sint_word_add signed_take_bit_int_eq_self)
qed

lemma sint_deficit_step:
  fixes gpd :: int32_t
  assumes "0 <s gpd" "gpd \<le>s 86400"
  shows "sint (word_sdiv 86400 gpd) = 86400 div sint gpd" and "0 < sint (word_sdiv 86400 gpd)"
proof -
  from assms have g: "0 < sint gpd" "sint gpd \<le> 86400"
    by (simp_all add: word_sless_alt word_sle_eq)
  then have "86400 div sint gpd \<le> 86400 div 1"
    by (intro zdiv_mono2) simp_all
  with g have q: "0 < 86400 div sint gpd" "86400 div sint gpd \<le> 86400"
    by (simp_all add: pos_imp_zdiv_pos_iff)
  have "(86400 :: int) sdiv sint gpd = 86400 div sint gpd"
    using g by (simp add: signed_divide_int_def)
  then show "sint (word_sdiv 86400 gpd) = 86400 div sint gpd"
    using q by (simp add: word_sdiv_def sint_sbintrunc' signed_take_bit_int_eq_self)
  with q show "0 < sint (word_sdiv 86400 gpd)" by simp
qed

text \<open>With a positive quotient the loop ends, after no more rounds than the countdown is below zero.\<close>

lemma accrue_deficit_terminates:
  fixes gpd r mg :: int32_t
  assumes "0 < sint (word_sdiv 86400 gpd)" "gpd \<noteq> 0"
  shows "\<exists>k. accrue_deficit gpd r mg =
               Some (Inr (r + of_nat k * word_sdiv 86400 gpd, mg + of_nat k)) \<and>
             int k \<le> max 0 (- sint r)"
proof (induction "nat (- sint r)" arbitrary: r mg rule: less_induct)
  case less
  let ?st = "word_sdiv 86400 gpd"
  show ?case
  proof (cases "r <s 0")
    case False
    then have "accrue_deficit gpd r mg = Some (Inr (r + of_nat 0 * ?st, mg + of_nat 0))"
      by (simp add: accrue_deficit_done)
    then show ?thesis by (intro exI [of _ 0]) simp
  next
    case True
    then have neg: "sint r < 0" by (simp add: word_sless_alt)
    with assms(1) have s: "sint (r + ?st) = sint r + sint ?st"
      by (simp add: sint_add_neg_pos)
    with assms(1) neg have "nat (- sint (r + ?st)) < nat (- sint r)" by simp
    from less [OF this, of "mg + 1"] obtain k where
      k: "accrue_deficit gpd (r + ?st) (mg + 1) =
            Some (Inr (r + ?st + of_nat k * ?st, mg + 1 + of_nat k))"
         "int k \<le> max 0 (- sint (r + ?st))"
      by blast
    have "accrue_deficit gpd r mg = Some (Inr (r + of_nat (Suc k) * ?st, mg + of_nat (Suc k)))"
      using True assms(2) k(1) by (simp add: accrue_deficit_step algebra_simps)
    moreover have "int (Suc k) \<le> max 0 (- sint r)"
      using k(2) s assms(1) neg by simp
    ultimately show ?thesis by blast
  qed
qed

section \<open>The parts of update\<close>

lemma update_Inr:
  assumes "update t s = Some (Inr s')"
  obtains lc s3 where
    "Loadcell_update (hx_ready t) (hx_value t) (loadcell s) = Inr lc"
    "update_deficit (now_millis t - update_prev_millis s)
       (s\<lparr> loadcell := lc, update_prev_millis := now_millis t \<rparr>) = Some (Inr s3)"
    "s' = update_tail t (now_millis t - update_prev_millis s) s3"
  using assms by (auto simp: update_def Let_def split: sum.splits option.splits)

lemma update_deficit_Inr:
  assumes "update_deficit d s = Some (Inr s3)"
  obtains r m where
    "accrue_deficit (grams_per_day s) (deficit_ms_remain s - d) (deficit_mg s) = Some (Inr (r, m))"
    "s3 = s\<lparr> deficit_ms_remain := r, deficit_mg := m,
             mqtt_deficit := round_nearest (round_nearest (real_of_int (sint m)) / 1000.0) \<rparr>"
  using assms by (auto simp: update_deficit_def split: sum.splits option.splits)

lemma accrue_deficit_Inr:
  assumes "accrue_deficit gpd r mg = Some (Inr y)"
  obtains k where "accrued gpd r mg k y"
  using accrue_deficit_result [OF assms] by (auto simp: accrue_post_def)

section \<open>What the parts of update leave alone\<close>

lemmas case_defs = case_IDLE_def case_IDLE_TARE_RESERVOIR_WAIT_def case_IDLE_readout_def
  case_FEED_PRE_MEASURE_WAIT_def case_FEED_PRE_MEASURE_RESERVOIR_def case_FEED_PRE_MEASURE_BOWL_def
  case_FEED_RUN_SYNC_def case_FEED_RUN_A_def case_FEED_RUN_B_def case_FEED_RUN_C_def
  case_FEED_POST_WAIT_def case_FEED_POST_MEASURE_BOWL_def case_FEED_POST_MEASURE_RESERVOIR_def

lemma transition_frame [simp]:
  "deficit_ms_remain (transition st s) = deficit_ms_remain s"
  "deficit_mg (transition st s) = deficit_mg s"
  "grams_per_day (transition st s) = grams_per_day s"
  "error_power_loss (transition st s) = error_power_loss s"
  "feed_report (transition st s) = feed_report s"
  "mqtt_last_feed (transition st s) = mqtt_last_feed s"
  "state (transition st s) = st"
  by (simp_all add: transition_def)

lemma handle_loadcell_readout_frame [simp]:
  "deficit_ms_remain (snd (handle_loadcell_readout s)) = deficit_ms_remain s"
  "deficit_mg (snd (handle_loadcell_readout s)) = deficit_mg s"
  "grams_per_day (snd (handle_loadcell_readout s)) = grams_per_day s"
  "error_power_loss (snd (handle_loadcell_readout s)) = error_power_loss s"
  "state (snd (handle_loadcell_readout s)) = state s"
  by (simp_all add: handle_loadcell_readout_def split: Sensor.split)

lemma estimate_frame [simp]:
  "deficit_ms_remain (snd (estimate_dispensed_weight_grams s)) = deficit_ms_remain s"
  "deficit_mg (snd (estimate_dispensed_weight_grams s)) = deficit_mg s"
  "grams_per_day (snd (estimate_dispensed_weight_grams s)) = grams_per_day s"
  "error_power_loss (snd (estimate_dispensed_weight_grams s)) = error_power_loss s"
  "state (snd (estimate_dispensed_weight_grams s)) = state s"
  by (simp_all add: estimate_dispensed_weight_grams_def Let_def)

lemma complete_feed_frame [simp]:
  "deficit_ms_remain (complete_feed now s) = deficit_ms_remain s"
  "grams_per_day (complete_feed now s) = grams_per_day s"
  "error_power_loss (complete_feed now s) = error_power_loss s"
  "state (complete_feed now s) = IDLE"
  by (simp_all add: complete_feed_def Let_def case_prod_beta)

lemma sensor_retry_abort_frame [simp]:
  "deficit_ms_remain (sensor_retry_abort now s) = deficit_ms_remain s"
  "deficit_mg (sensor_retry_abort now s) = deficit_mg s"
  "grams_per_day (sensor_retry_abort now s) = grams_per_day s"
  "error_power_loss (sensor_retry_abort now s) = error_power_loss s"
  "state (sensor_retry_abort now s) = IDLE"
  by (simp_all add: sensor_retry_abort_def Let_def)

lemma handle_state_deficit_ms_remain:
  "deficit_ms_remain (snd (handle_state t s)) = deficit_ms_remain s"
  by (simp add: handle_state_def case_defs feed_def Let_def case_prod_beta split: State.split)

lemma handle_state_grams_per_day:
  "grams_per_day (snd (handle_state t s)) = grams_per_day s"
  by (simp add: handle_state_def case_defs feed_def Let_def case_prod_beta split: State.split)

lemma handle_state_error_power_loss:
  "error_power_loss (snd (handle_state t s)) = error_power_loss s"
  by (simp add: handle_state_def case_defs feed_def Let_def case_prod_beta split: State.split)

lemma update_tail_frame:
  "deficit_ms_remain (update_tail t d s) = deficit_ms_remain s"
  "grams_per_day (update_tail t d s) = grams_per_day s"
  "error_power_loss (update_tail t d s) = error_power_loss s"
  by (simp_all add: update_tail_def Let_def case_prod_beta handle_state_deficit_ms_remain
      handle_state_grams_per_day handle_state_error_power_loss update_timers_def
      update_mqtt_status_def)

text \<open>The state, the flags and the timers as the switch of \<open>update\<close> finds them.\<close>

lemma update_Inr_tail:
  assumes "update t s = Some (Inr s')"
  obtains lc r m where
    "Loadcell_update (hx_ready t) (hx_value t) (loadcell s) = Inr lc"
    "accrue_deficit (grams_per_day s) (deficit_ms_remain s - (now_millis t - update_prev_millis s))
       (deficit_mg s) = Some (Inr (r, m))"
    "s' = update_tail t (now_millis t - update_prev_millis s)
            (s\<lparr> loadcell := lc, update_prev_millis := now_millis t,
                deficit_ms_remain := r, deficit_mg := m,
                mqtt_deficit := round_nearest (round_nearest (real_of_int (sint m)) / 1000.0) \<rparr>)"
proof -
  from assms obtain lc s3 where
    lc: "Loadcell_update (hx_ready t) (hx_value t) (loadcell s) = Inr lc" and
    d: "update_deficit (now_millis t - update_prev_millis s)
          (s\<lparr> loadcell := lc, update_prev_millis := now_millis t \<rparr>) = Some (Inr s3)" and
    s': "s' = update_tail t (now_millis t - update_prev_millis s) s3"
    by (rule update_Inr)
  from d obtain r m where
    "accrue_deficit (grams_per_day s) (deficit_ms_remain s - (now_millis t - update_prev_millis s))
       (deficit_mg s) = Some (Inr (r, m))"
    "s3 = s\<lparr> loadcell := lc, update_prev_millis := now_millis t,
             deficit_ms_remain := r, deficit_mg := m,
             mqtt_deficit := round_nearest (round_nearest (real_of_int (sint m)) / 1000.0) \<rparr>"
    by (rule update_deficit_Inr) simp
  with lc s' show thesis by (intro that) simp_all
qed

lemmas update_tail_defs = update_tail_def update_mqtt_status_def update_timers_def

text \<open>
  The state \<open>s2\<close> on which the switch of \<open>update\<close> works: the load cell has been updated,
  the deficit loop has run, and the timers have advanced by the elapsed time.
\<close>

lemma update_Inr_switch:
  assumes "update t s = Some (Inr s')"
  obtains lc r m s2 where
    "Loadcell_update (hx_ready t) (hx_value t) (loadcell s) = Inr lc"
    "accrue_deficit (grams_per_day s) (deficit_ms_remain s - (now_millis t - update_prev_millis s))
       (deficit_mg s) = Some (Inr (r, m))"
    "s' = (snd (handle_state t s2))\<lparr> pin_motor := fst (handle_state t s2) \<rparr>"
    "loadcell s2 = lc" "deficit_ms_remain s2 = r" "deficit_mg s2 = m"
    "state s2 = state s" "maintenance_mode s2 = maintenance_mode s"
    "error_reservoir_stddev s2 = error_reservoir_stddev s"
    "error_bowl_stddev s2 = error_bowl_stddev s"
    "error_loadcell_timeout s2 = error_loadcell_timeout s"
    "error_loadcell_disagree s2 = error_loadcell_disagree s"
    "error_loadcell_unreasonable s2 = error_loadcell_unreasonable s"
    "error_limit_switch s2 = error_limit_switch s"
    "error_power_loss s2 = error_power_loss s"
    "grams_per_day s2 = grams_per_day s"
    "deficit_threshold_mg s2 = deficit_threshold_mg s"
    "millis_since_transition s2 =
       millis_since_transition s + (now_millis t - update_prev_millis s)"
    "millis_since_feed_attempt s2 =
       millis_since_feed_attempt s + (now_millis t - update_prev_millis s)"
    "state_retries s2 = state_retries s"
    "feed_sensor_retries s2 = feed_sensor_retries s"
    "feed_jammed_retries s2 = feed_jammed_retries s"
    "feed_report s2 = feed_report s"
    "update_prev_millis s2 = now_millis t"
proof -
  let ?d = "now_millis t - update_prev_millis s"
  from assms obtain lc r m where
    lc: "Loadcell_update (hx_ready t) (hx_value t) (loadcell s) = Inr lc" and
    acc: "accrue_deficit (grams_per_day s) (deficit_ms_remain s - ?d) (deficit_mg s) =
            Some (Inr (r, m))" and
    s': "s' = update_tail t ?d
            (s\<lparr> loadcell := lc, update_prev_millis := now_millis t,
                deficit_ms_remain := r, deficit_mg := m,
                mqtt_deficit := round_nearest (round_nearest (real_of_int (sint m)) / 1000.0) \<rparr>)"
    by (rule update_Inr_tail)
  define s2 where "s2 = update_timers ?d (update_mqtt_status ?d
            (s\<lparr> loadcell := lc, update_prev_millis := now_millis t,
                deficit_ms_remain := r, deficit_mg := m,
                mqtt_deficit := round_nearest (round_nearest (real_of_int (sint m)) / 1000.0) \<rparr>))"
  from s' have "s' = (snd (handle_state t s2))\<lparr> pin_motor := fst (handle_state t s2) \<rparr>"
    by (simp add: update_tail_def s2_def Let_def case_prod_beta)
  moreover have "loadcell s2 = lc" "deficit_ms_remain s2 = r" "deficit_mg s2 = m"
    "state s2 = state s" "maintenance_mode s2 = maintenance_mode s"
    by (simp_all add: s2_def update_timers_def update_mqtt_status_def Let_def)
  moreover have "error_reservoir_stddev s2 = error_reservoir_stddev s"
    "error_bowl_stddev s2 = error_bowl_stddev s"
    "error_loadcell_timeout s2 = error_loadcell_timeout s"
    "error_loadcell_disagree s2 = error_loadcell_disagree s"
    "error_loadcell_unreasonable s2 = error_loadcell_unreasonable s"
    "error_limit_switch s2 = error_limit_switch s"
    "error_power_loss s2 = error_power_loss s"
    by (simp_all add: s2_def update_timers_def update_mqtt_status_def Let_def)
  moreover have "grams_per_day s2 = grams_per_day s"
    "deficit_threshold_mg s2 = deficit_threshold_mg s"
    "millis_since_transition s2 = millis_since_transition s + ?d"
    "millis_since_feed_attempt s2 = millis_since_feed_attempt s + ?d"
    "state_retries s2 = state_retries s"
    "feed_sensor_retries s2 = feed_sensor_retries s"
    "feed_jammed_retries s2 = feed_jammed_retries s"
    "feed_report s2 = feed_report s"
    "update_prev_millis s2 = now_millis t"
    by (simp_all add: s2_def update_timers_def update_mqtt_status_def Let_def)
  ultimately show thesis using lc acc by (rule that [rotated 2])
qed

section \<open>Deficit accrual\<close>

text \<open>
  Claim C1, as amended. Whenever \<open>update\<close> returns, its deficit loop has run some number
  \<open>k\<close> of rounds on the countdown left after subtracting the elapsed time: the countdown
  was negative before each round, every round added exactly 1 to \<open>deficit_mg\<close> and
  \<open>86400 / grams_per_day\<close> milliseconds to \<open>deficit_ms_remain\<close>, and the countdown is not
  negative when \<open>update\<close> returns. (\<open>s3\<close> is the state after the loop, from which the rest
  of \<open>update\<close> continues.)
\<close>

theorem update_accrues_deficit:
  assumes "update t s = Some (Inr s')"
  shows "\<exists>k s3.
           s' = update_tail t (now_millis t - update_prev_millis s) s3 \<and>
           deficit_mg s3 = deficit_mg s + of_nat k \<and>
           deficit_ms_remain s' =
             deficit_ms_remain s - (now_millis t - update_prev_millis s)
               + of_nat k * word_sdiv 86400 (grams_per_day s) \<and>
           \<not> deficit_ms_remain s' <s 0 \<and>
           (\<forall>j<k. deficit_ms_remain s - (now_millis t - update_prev_millis s)
                     + of_nat j * word_sdiv 86400 (grams_per_day s) <s 0)"
proof -
  let ?d = "now_millis t - update_prev_millis s"
  from assms obtain lc r m where
    acc: "accrue_deficit (grams_per_day s) (deficit_ms_remain s - ?d) (deficit_mg s) =
            Some (Inr (r, m))" and
    s': "s' = update_tail t ?d
            (s\<lparr> loadcell := lc, update_prev_millis := now_millis t,
                deficit_ms_remain := r, deficit_mg := m,
                mqtt_deficit := round_nearest (round_nearest (real_of_int (sint m)) / 1000.0) \<rparr>)"
    by (rule update_Inr_tail)
  from acc obtain k where "accrued (grams_per_day s) (deficit_ms_remain s - ?d) (deficit_mg s) k (r, m)"
    by (rule accrue_deficit_Inr)
  then have k: "r = deficit_ms_remain s - ?d + of_nat k * word_sdiv 86400 (grams_per_day s)"
    "m = deficit_mg s + of_nat k" "\<not> r <s 0"
    "\<forall>j<k. deficit_ms_remain s - ?d + of_nat j * word_sdiv 86400 (grams_per_day s) <s 0"
    by (auto simp: accrued_def)
  from s' have "deficit_ms_remain s' = r"
    by (simp add: update_tail_frame)
  with k s' show ?thesis
    by (intro exI [of _ k] exI [of _ "s\<lparr> loadcell := lc, update_prev_millis := now_millis t,
                deficit_ms_remain := r, deficit_mg := m,
                mqtt_deficit := round_nearest (round_nearest (real_of_int (sint m)) / 1000.0) \<rparr>"]) simp
qed

lemma update_example:
  "update tick_1ms StateMachine_init =
   Some (Inr (update_tail tick_1ms 1
     (StateMachine_init\<lparr> update_prev_millis := 1, deficit_ms_remain := 1439, deficit_mg := 1,
                          mqtt_deficit := round_nearest (1 / 1000) \<rparr>)))"
  by (simp add: update_def update_deficit_def StateMachine_init_def Loadcell_update_def
      Loadcell_init_def accrue_deficit_step accrue_deficit_done word_sdiv_def word_sless_alt
      tick_1ms_def round_nearest_consts)

text \<open>
  Claim C1 as stated fails: with the initial 60 grams per day and one millisecond elapsed,
  the single round of the loop takes the countdown from \<open>-1\<close> to \<open>1439\<close>, a period of
  \<open>1440 = 86400 / 60\<close> milliseconds; a period of \<open>86400000 / 60\<close> would leave \<open>1439999\<close>.
\<close>

theorem accrual_period_counterexample:
  "update_deficit 1 StateMachine_init =
     Some (Inr (StateMachine_init\<lparr> deficit_ms_remain := 1439, deficit_mg := 1,
                                   mqtt_deficit := round_nearest (1 / 1000) \<rparr>)) \<and>
   map_option (map_sum id deficit_ms_remain) (update tick_1ms StateMachine_init) =
     Some (Inr 1439) \<and>
   deficit_ms_remain StateMachine_init - 1 + word_sdiv 86400000 (grams_per_day StateMachine_init)
     = 1439999"
  by (simp add: update_example update_tail_frame)
     (simp add: update_deficit_def StateMachine_init_def accrue_deficit_step accrue_deficit_done
        word_sdiv_def word_sless_alt round_nearest_consts)

text \<open>The theorem at that call: the hypothesis holds and the conclusion follows.\<close>

theorem update_accrues_deficit_witness:
  "update tick_1ms StateMachine_init =
     Some (Inr (update_tail tick_1ms 1
       (StateMachine_init\<lparr> update_prev_millis := 1, deficit_ms_remain := 1439, deficit_mg := 1,
                            mqtt_deficit := round_nearest (1 / 1000) \<rparr>))) \<and>
   (\<exists>k s3.
      update_tail tick_1ms 1
        (StateMachine_init\<lparr> update_prev_millis := 1, deficit_ms_remain := 1439, deficit_mg := 1,
                             mqtt_deficit := round_nearest (1 / 1000) \<rparr>) =
        update_tail tick_1ms (now_millis tick_1ms - update_prev_millis StateMachine_init) s3 \<and>
      deficit_mg s3 = deficit_mg StateMachine_init + of_nat k \<and>
      deficit_ms_remain (update_tail tick_1ms 1
        (StateMachine_init\<lparr> update_prev_millis := 1, deficit_ms_remain := 1439, deficit_mg := 1,
                             mqtt_deficit := round_nearest (1 / 1000) \<rparr>)) =
        deficit_ms_remain StateMachine_init
          - (now_millis tick_1ms - update_prev_millis StateMachine_init)
          + of_nat k * word_sdiv 86400 (grams_per_day StateMachine_init) \<and>
      \<not> deficit_ms_remain (update_tail tick_1ms 1
        (StateMachine_init\<lparr> update_prev_millis := 1, deficit_ms_remain := 1439, deficit_mg := 1,
                             mqtt_deficit := round_nearest (1 / 1000) \<rparr>)) <s 0 \<and>
      (\<forall>j<k. deficit_ms_remain StateMachine_init
                  - (now_millis tick_1ms - update_prev_millis StateMachine_init)
                  + of_nat j * word_sdiv 86400 (grams_per_day StateMachine_init) <s 0))"
  by (rule conjI [OF update_example update_accrues_deficit [OF update_example]])

section \<open>Termination of the deficit loop\<close>

text \<open>
  Claim C2, as amended. For \<open>0 < grams_per_day \<le> 86400\<close> and every elapsed time, \<open>update\<close>
  ends: it stops in the load cell driver or it returns. When it returns, the deficit loop
  has ended after \<open>k\<close> increments of \<open>deficit_mg\<close>, where \<open>k\<close> is at most the amount by which
  the countdown was below zero, and \<open>deficit_ms_remain\<close> is not negative.
\<close>

theorem update_terminates:
  assumes "0 <s grams_per_day s" and "grams_per_day s \<le>s 86400"
  shows "\<exists>res. update t s = Some res \<and>
    (case res of
       Inl f \<Rightarrow> Loadcell_update (hx_ready t) (hx_value t) (loadcell s) = Inl f
     | Inr s' \<Rightarrow>
         \<not> deficit_ms_remain s' <s 0 \<and>
         (\<exists>k. int k \<le> max 0 (- sint (deficit_ms_remain s - (now_millis t - update_prev_millis s))) \<and>
              accrue_deficit (grams_per_day s)
                (deficit_ms_remain s - (now_millis t - update_prev_millis s)) (deficit_mg s) =
              Some (Inr (deficit_ms_remain s', deficit_mg s + of_nat k))))"
proof (cases "Loadcell_update (hx_ready t) (hx_value t) (loadcell s)")
  case (Inl f)
  then show ?thesis by (simp add: update_def)
next
  case (Inr lc)
  let ?d = "now_millis t - update_prev_millis s"
  let ?st = "word_sdiv 86400 (grams_per_day s)"
  from assms have pos: "0 < sint ?st"
    by (rule sint_deficit_step(2))
  from assms(1) have nz: "grams_per_day s \<noteq> 0"
    by (auto simp: word_sless_alt)
  from accrue_deficit_terminates [OF pos nz, of "deficit_ms_remain s - ?d" "deficit_mg s"]
  obtain k where
    acc: "accrue_deficit (grams_per_day s) (deficit_ms_remain s - ?d) (deficit_mg s) =
            Some (Inr (deficit_ms_remain s - ?d + of_nat k * ?st, deficit_mg s + of_nat k))" and
    bound: "int k \<le> max 0 (- sint (deficit_ms_remain s - ?d))"
    by blast
  from acc obtain j where
    "accrued (grams_per_day s) (deficit_ms_remain s - ?d) (deficit_mg s) j
       (deficit_ms_remain s - ?d + of_nat k * ?st, deficit_mg s + of_nat k)"
    by (rule accrue_deficit_Inr)
  then have nonneg: "\<not> deficit_ms_remain s - ?d + of_nat k * ?st <s 0"
    by (auto simp: accrued_def)
  let ?s3 = "s\<lparr> loadcell := lc, update_prev_millis := now_millis t,
                 deficit_ms_remain := deficit_ms_remain s - ?d + of_nat k * ?st,
                 deficit_mg := deficit_mg s + of_nat k,
                 mqtt_deficit := round_nearest (round_nearest (real_of_int (sint (deficit_mg s + of_nat k))) / 1000.0) \<rparr>"
  from Inr acc have "update t s = Some (Inr (update_tail t ?d ?s3))"
    by (simp add: update_def update_deficit_def Let_def)
  moreover have "deficit_ms_remain (update_tail t ?d ?s3) = deficit_ms_remain s - ?d + of_nat k * ?st"
    by (simp add: update_tail_frame)
  ultimately show ?thesis
    using nonneg bound acc by auto
qed

text \<open>The theorem at the initial state, where \<open>grams_per_day\<close> is 60.\<close>

theorem update_terminates_witness:
  "0 <s grams_per_day StateMachine_init \<and> grams_per_day StateMachine_init \<le>s 86400 \<and>
   (\<exists>res. update tick_1ms StateMachine_init = Some res \<and>
    (case res of
       Inl f \<Rightarrow> Loadcell_update (hx_ready tick_1ms) (hx_value tick_1ms) (loadcell StateMachine_init) = Inl f
     | Inr s' \<Rightarrow>
         \<not> deficit_ms_remain s' <s 0 \<and>
         (\<exists>k. int k \<le> max 0 (- sint (deficit_ms_remain StateMachine_init
                    - (now_millis tick_1ms - update_prev_millis StateMachine_init))) \<and>
              accrue_deficit (grams_per_day StateMachine_init)
                (deficit_ms_remain StateMachine_init
                    - (now_millis tick_1ms - update_prev_millis StateMachine_init))
                (deficit_mg StateMachine_init) =
              Some (Inr (deficit_ms_remain s', deficit_mg StateMachine_init + of_nat k)))))"
proof -
  have h1: "0 <s grams_per_day StateMachine_init"
    by (simp add: StateMachine_init_def word_sless_alt)
  have h2: "grams_per_day StateMachine_init \<le>s 86400"
    by (simp add: StateMachine_init_def word_sle_eq)
  from h1 h2 update_terminates [OF h1 h2, of tick_1ms] show ?thesis
    by (intro conjI)
qed

text \<open>
  Claim C2 as stated fails: \<open>grams_per_day = 86401\<close> is greater than 0 and the elapsed
  time of one millisecond is not negative, but the quotient \<open>86400 / 86401\<close> is 0, the
  countdown stays at \<open>-1\<close>, and \<open>update\<close> does not return.
\<close>

theorem update_terminates_counterexample:
  "0 <s grams_per_day (StateMachine_init\<lparr> grams_per_day := 86401 \<rparr>) \<and>
   0 \<le>s now_millis tick_1ms - update_prev_millis (StateMachine_init\<lparr> grams_per_day := 86401 \<rparr>) \<and>
   update tick_1ms (StateMachine_init\<lparr> grams_per_day := 86401 \<rparr>) = None"
proof -
  have "accrue_deficit 86401 (0 - 1) 0 = None"
    by (rule accrue_deficit_diverges) (simp_all add: word_sless_alt word_sdiv_def)
  then show ?thesis
    by (simp add: update_def update_deficit_def StateMachine_init_def Loadcell_update_def
        Loadcell_init_def tick_1ms_def word_sless_alt word_sle_eq)
qed

section \<open>When a call of update returns\<close>

text \<open>
  The load cell driver does not stop at a fault when its count of remaining samples is
  within the sample array, and the deficit loop ends when \<open>grams_per_day\<close> is between
  1 and 86400: then \<open>update\<close> returns.
\<close>

lemma sint_pred:
  fixes n :: int32_t
  assumes "1 \<le> sint n" "sint n \<le> 32"
  shows "sint (n - 1) = sint n - 1"
proof -
  have "n - 1 = word_of_int (sint n - 1)" by simp
  moreover have "- (2 ^ 31) \<le> sint n - 1" "sint n - 1 < 2 ^ 31"
    using assms by simp_all
  ultimately show ?thesis
    by (simp only: sint_sbintrunc') (simp add: signed_take_bit_int_eq_self)
qed

lemma Loadcell_update_returns:
  assumes "0 \<le>s samples_remaining lc" and "samples_remaining lc \<le>s 32"
  shows "\<exists>lc'. Loadcell_update ready v lc = Inr lc'"
proof (cases "samples_remaining lc = 0")
  case True
  then show ?thesis by (simp add: Loadcell_update_def)
next
  case False
  from assms have "0 \<le> sint (samples_remaining lc)" "sint (samples_remaining lc) \<le> 32"
    by (simp_all add: word_sle_eq)
  moreover from False have "sint (samples_remaining lc) \<noteq> 0"
    by (metis signed_eq_0_iff)
  ultimately have b: "1 \<le> sint (samples_remaining lc)" "sint (samples_remaining lc) \<le> 32"
    by simp_all
  from sint_pred [OF b] b show ?thesis
    by (simp add: Loadcell_update_def Let_def NUM_SAMPLES_def)
qed

lemma update_returns:
  assumes "Loadcell_update (hx_ready t) (hx_value t) (loadcell s) = Inr lc"
    and "0 <s grams_per_day s" and "grams_per_day s \<le>s 86400"
  shows "\<exists>s'. update t s = Some (Inr s')"
proof -
  let ?d = "now_millis t - update_prev_millis s"
  from assms(2,3) have pos: "0 < sint (word_sdiv 86400 (grams_per_day s))"
    by (rule sint_deficit_step(2))
  from assms(2) have nz: "grams_per_day s \<noteq> 0"
    by (auto simp: word_sless_alt)
  from accrue_deficit_terminates [OF pos nz, of "deficit_ms_remain s - ?d" "deficit_mg s"]
  obtain y where
    "accrue_deficit (grams_per_day s) (deficit_ms_remain s - ?d) (deficit_mg s) = Some (Inr y)"
    by blast
  with assms(1) show ?thesis
    by (cases y) (simp add: update_def update_deficit_def Let_def)
qed

lemma update_returns_in_range:
  assumes "0 \<le>s samples_remaining (loadcell s)" and "samples_remaining (loadcell s) \<le>s 32"
    and "0 <s grams_per_day s" and "grams_per_day s \<le>s 86400"
  shows "\<exists>s'. update t s = Some (Inr s')"
  using Loadcell_update_returns [OF assms(1,2)] update_returns [OF _ assms(3,4)] by blast

section \<open>The synchronisation phase of the motor run\<close>

lemma case_FEED_RUN_SYNC_result:
  assumes "\<not> error_limit_switch s"
  shows "if \<not> limit then state (case_FEED_RUN_SYNC limit s) = FEED_RUN_A \<and>
              \<not> error_limit_switch (case_FEED_RUN_SYNC limit s)
     else if millis_since_transition s < 3000
       then case_FEED_RUN_SYNC limit s = s
     else state (case_FEED_RUN_SYNC limit s) = FEED_POST_WAIT \<and>
              error_limit_switch (case_FEED_RUN_SYNC limit s)"
  using assms
  by (simp add: case_FEED_RUN_SYNC_def transition_def FEED_RUN_TIMEOUT_MILLIS_def)

lemma feed_run_sync_returned:
  assumes "state s = FEED_RUN_SYNC" and "\<not> error_limit_switch s"
    and "update t s = Some (Inr s')"
  shows "pin_motor s' \<and>
    (if \<not> limit_switch t then state s' = FEED_RUN_A \<and> \<not> error_limit_switch s'
     else if millis_since_transition s + (now_millis t - update_prev_millis s) < 3000
       then state s' = FEED_RUN_SYNC \<and> \<not> error_limit_switch s'
     else state s' = FEED_POST_WAIT \<and> error_limit_switch s')"
proof -
  from assms(3) obtain s2 where
    s': "s' = (snd (handle_state t s2))\<lparr> pin_motor := fst (handle_state t s2) \<rparr>" and
    s2: "state s2 = state s" "error_limit_switch s2 = error_limit_switch s"
      "millis_since_transition s2 =
         millis_since_transition s + (now_millis t - update_prev_millis s)"
    by (rule update_Inr_switch)
  from s2(1) assms(1) have "handle_state t s2 = (True, case_FEED_RUN_SYNC (limit_switch t) s2)"
    by (simp add: handle_state_def)
  with s' have s'': "s' = (case_FEED_RUN_SYNC (limit_switch t) s2)\<lparr> pin_motor := True \<rparr>"
    by simp
  from s2(2) assms(2) have "\<not> error_limit_switch s2" by simp
  from case_FEED_RUN_SYNC_result [OF this, of "limit_switch t"] s2 assms(1,2)
  show ?thesis
    unfolding s'' by (simp split: if_splits)
qed

text \<open>
  Claim C3, as amended. In state \<open>FEED_RUN_SYNC\<close> with the limit-switch fault flag clear,
  a call of \<open>update\<close> returns whenever the load cell driver's count of remaining samples
  is within 0 to 32 and \<open>grams_per_day\<close> is within 1 to 86400; and every call that
  returns drives the motor and: goes to \<open>FEED_RUN_A\<close> when the limit switch is not
  asserted; stays in \<open>FEED_RUN_SYNC\<close> while the switch is asserted and the time in the
  state is below 3 seconds; and once that time has reached 3 seconds with the switch still
  asserted, sets the fault flag and goes to \<open>FEED_POST_WAIT\<close>.
\<close>

theorem feed_run_sync:
  assumes "state s = FEED_RUN_SYNC" and "\<not> error_limit_switch s"
  shows "(0 \<le>s samples_remaining (loadcell s) \<and> samples_remaining (loadcell s) \<le>s 32 \<and>
          0 <s grams_per_day s \<and> grams_per_day s \<le>s 86400 \<longrightarrow>
            (\<exists>s'. update t s = Some (Inr s'))) \<and>
    (\<forall>s'. update t s = Some (Inr s') \<longrightarrow>
       pin_motor s' \<and>
       (if \<not> limit_switch t then state s' = FEED_RUN_A \<and> \<not> error_limit_switch s'
        else if millis_since_transition s + (now_millis t - update_prev_millis s) < 3000
          then state s' = FEED_RUN_SYNC \<and> \<not> error_limit_switch s'
        else state s' = FEED_POST_WAIT \<and> error_limit_switch s'))"
  using update_returns_in_range [of s t] feed_run_sync_returned [OF assms]
  by blast

lemma sync_timeout_example:
  "update tick_limit (StateMachine_init\<lparr> state := FEED_RUN_SYNC, millis_since_transition := 3000 \<rparr>) =
   Some (Inr (update_tail tick_limit 0
     (StateMachine_init\<lparr> state := FEED_RUN_SYNC, millis_since_transition := 3000 \<rparr>)))"
  by (simp add: update_def update_deficit_def StateMachine_init_def Loadcell_update_def
      Loadcell_init_def accrue_deficit_done word_sless_alt tick_limit_def round_nearest_consts)

text \<open>
  Claim C3 as stated fails: after 3 seconds in \<open>FEED_RUN_SYNC\<close> with the switch asserted
  and the flag clear, the machine is in \<open>FEED_POST_WAIT\<close>, not in \<open>FEED_RUN_A\<close>.
\<close>

theorem feed_run_sync_counterexample:
  "state (StateMachine_init\<lparr> state := FEED_RUN_SYNC, millis_since_transition := 3000 \<rparr>) = FEED_RUN_SYNC \<and>
   \<not> error_limit_switch (StateMachine_init\<lparr> state := FEED_RUN_SYNC, millis_since_transition := 3000 \<rparr>) \<and>
   limit_switch tick_limit \<and>
   map_option (map_sum id state)
     (update tick_limit (StateMachine_init\<lparr> state := FEED_RUN_SYNC, millis_since_transition := 3000 \<rparr>))
     = Some (Inr FEED_POST_WAIT) \<and>
   map_option (map_sum id error_limit_switch)
     (update tick_limit (StateMachine_init\<lparr> state := FEED_RUN_SYNC, millis_since_transition := 3000 \<rparr>))
     = Some (Inr True)"
  by (simp add: sync_timeout_example)
     (simp add: StateMachine_init_def tick_limit_def update_tail_defs handle_state_def
        case_FEED_RUN_SYNC_def transition_def FEED_RUN_TIMEOUT_MILLIS_def Let_def)

text \<open>
  The theorem at the same call, from the initial load cell (no samples remaining) and the
  initial 60 grams per day.
\<close>

theorem feed_run_sync_witness:
  "state (StateMachine_init\<lparr> state := FEED_RUN_SYNC, millis_since_transition := 3000 \<rparr>) = FEED_RUN_SYNC \<and>
   \<not> error_limit_switch (StateMachine_init\<lparr> state := FEED_RUN_SYNC, millis_since_transition := 3000 \<rparr>) \<and>
   0 \<le>s samples_remaining (loadcell
     (StateMachine_init\<lparr> state := FEED_RUN_SYNC, millis_since_transition := 3000 \<rparr>)) \<and>
   samples_remaining (loadcell
     (StateMachine_init\<lparr> state := FEED_RUN_SYNC, millis_since_transition := 3000 \<rparr>)) \<le>s 32 \<and>
   0 <s grams_per_day (StateMachine_init\<lparr> state := FEED_RUN_SYNC, millis_since_transition := 3000 \<rparr>) \<and>
   grams_per_day (StateMachine_init\<lparr> state := FEED_RUN_SYNC, millis_since_transition := 3000 \<rparr>)
     \<le>s 86400 \<and>
   (\<exists>s'. update tick_limit
       (StateMachine_init\<lparr> state := FEED_RUN_SYNC, millis_since_transition := 3000 \<rparr>) = Some (Inr s')) \<and>
   update tick_limit (StateMachine_init\<lparr> state := FEED_RUN_SYNC, millis_since_transition := 3000 \<rparr>) =
     Some (Inr (update_tail tick_limit 0
       (StateMachine_init\<lparr> state := FEED_RUN_SYNC, millis_since_transition := 3000 \<rparr>))) \<and>
   pin_motor (update_tail tick_limit 0
       (StateMachine_init\<lparr> state := FEED_RUN_SYNC, millis_since_transition := 3000 \<rparr>)) \<and>
   state (update_tail tick_limit 0
       (StateMachine_init\<lparr> state := FEED_RUN_SYNC, millis_since_transition := 3000 \<rparr>)) = FEED_POST_WAIT \<and>
   error_limit_switch (update_tail tick_limit 0
       (StateMachine_init\<lparr> state := FEED_RUN_SYNC, millis_since_transition := 3000 \<rparr>))"
proof -
  let ?s = "StateMachine_init\<lparr> state := FEED_RUN_SYNC, millis_since_transition := 3000 \<rparr>"
  have h1: "state ?s = FEED_RUN_SYNC" by simp
  have h2: "\<not> error_limit_switch ?s" by (simp add: StateMachine_init_def)
  have r: "0 \<le>s samples_remaining (loadcell ?s)" "samples_remaining (loadcell ?s) \<le>s 32"
    "0 <s grams_per_day ?s" "grams_per_day ?s \<le>s 86400"
    by (simp_all add: StateMachine_init_def Loadcell_init_def word_sle_eq word_sless_alt)
  have l: "limit_switch tick_limit" by (simp add: tick_limit_def)
  have e: "\<not> millis_since_transition ?s + (now_millis tick_limit - update_prev_millis ?s) < 3000"
    by (simp add: tick_limit_def StateMachine_init_def)
  from feed_run_sync [OF h1 h2, of tick_limit] r
  have a: "\<exists>s'. update tick_limit ?s = Some (Inr s')" by blast
  from feed_run_sync [OF h1 h2, of tick_limit] sync_timeout_example l e
  have b: "pin_motor (update_tail tick_limit 0 ?s)"
    "state (update_tail tick_limit 0 ?s) = FEED_POST_WAIT"
    "error_limit_switch (update_tail tick_limit 0 ?s)"
    by simp_all
  from h1 h2 r a sync_timeout_example b show ?thesis
    by (intro conjI)
qed

section \<open>Estimating the dispensed weight\<close>

lemma round_nearest_examples:
  "round_nearest (1 / 2) = 1 / 2" "round_nearest (17 / 2) = 17 / 2" "round_nearest 18 = 18"
  "round_nearest 7 = 7" "round_nearest (9 / 2) = 9 / 2"
  "round_nearest (16777215 / 8388608) = 16777215 / 8388608"
proof -
  show "round_nearest (1 / 2) = 1 / 2"
    by (subst round_nearest_eval [where e = "- 24"]) simp_all
  show "round_nearest (17 / 2) = 17 / 2"
    by (subst round_nearest_eval [where e = "- 20"]) simp_all
  show "round_nearest 18 = 18"
    by (subst round_nearest_eval [where e = "- 19"]) simp_all
  show "round_nearest 7 = 7"
    by (subst round_nearest_eval [where e = "- 21"]) simp_all
  show "round_nearest (9 / 2) = 9 / 2"
    by (subst round_nearest_eval [where e = "- 21"]) simp_all
  show "round_nearest (16777215 / 8388608) = 16777215 / 8388608"
    by (subst round_nearest_eval [where e = "- 23"]) simp_all
qed

text \<open>
  Where rounding decides. The reservoir has lost 7 g and the bowl has gained the float
  just below 2 g: the exact difference of the two is above 5 g, but the binary32
  difference is 5, a tie that goes to the even neighbour, so the sensors do not disagree;
  the binary32 sum is 9 and the estimate is 4.5 g.
\<close>

lemma round_nearest_ties:
  "round_nearest (7 - 16777215 / 8388608) = 5" "round_nearest (7 + 16777215 / 8388608) = 9"
proof -
  show "round_nearest (7 - 16777215 / 8388608) = 5"
    by (subst round_nearest_eval [where e = "- 21"]) (simp_all add: round_even_def)
  show "round_nearest (7 + 16777215 / 8388608) = 9"
    by (subst round_nearest_eval [where e = "- 20"]) (simp_all add: round_even_def)
qed

lemma estimate_rounding_example:
  "estimate_dispensed_weight_grams
     (StateMachine_init\<lparr> feed_reservoir_pre := 507, feed_reservoir_post := 500,
        feed_bowl_pre := 0, feed_bowl_post := 16777215 / 8388608 \<rparr>) =
   (4.5, StateMachine_init\<lparr> feed_reservoir_pre := 507, feed_reservoir_post := 500,
        feed_bowl_pre := 0, feed_bowl_post := 16777215 / 8388608 \<rparr>)"
proof -
  let ?s = "StateMachine_init\<lparr> feed_reservoir_pre := 507, feed_reservoir_post := 500,
        feed_bowl_pre := 0, feed_bowl_post := 16777215 / 8388608 \<rparr>"
  have limp: "loadcell_limp_mode ?s = None"
    by (simp add: loadcell_limp_mode_def StateMachine_init_def)
  have a: "round32 (feed_reservoir_pre ?s - feed_reservoir_post ?s) = Finite 7"
    "round32 (feed_bowl_post ?s - feed_bowl_pre ?s) = Finite (16777215 / 8388608)"
    by (simp_all add: round32_def round_nearest_examples)
  have b: "fsub (Finite 7) (Finite (16777215 / 8388608)) = Finite 5"
    "fadd (Finite 7) (Finite (16777215 / 8388608)) = Finite 9"
    "fdiv (Finite 9) (Finite 2) = Finite (9 / 2)"
    using round_nearest_ties
    by (simp_all add: fsub_Finite round32_def round_nearest_examples)
  show ?thesis
    unfolding estimate_unfold [OF limp] a b by (simp add: fgt_def)
qed

text \<open>
  Claim C4. With no load cell limp-mode flag set, \<open>estimate_dispensed_weight_grams\<close>
  takes the binary32 difference of the reservoir weights before and after the feed and
  that of the bowl weights after and before. When the magnitude of the binary32
  difference of the two exceeds 5 g it sets the disagreement flag and returns 9 g;
  otherwise it takes their binary32 average, and when that is below -2 g or above 27 g it
  sets the unreasonable flag and returns 9 g; otherwise it returns the average, a number
  between -2 and 27, and changes nothing. At reservoir 500 g then 491 g and bowl 10 g
  then 10.5 g the disagreement is flagged and 9 g returned.
\<close>

theorem estimate_dispensed_weight:
  "(loadcell_limp_mode s = None \<longrightarrow>
     (let dispensed_reservoir =
            fsub (Finite (feed_reservoir_pre s)) (Finite (feed_reservoir_post s));
          dispensed_bowl = fsub (Finite (feed_bowl_post s)) (Finite (feed_bowl_pre s));
          average = fdiv (fadd dispensed_reservoir dispensed_bowl) (Finite 2)
      in estimate_dispensed_weight_grams s =
           (if fgt (fabs (fsub dispensed_reservoir dispensed_bowl)) (Finite 5)
            then (9, s\<lparr> error_loadcell_disagree := True \<rparr>)
            else if flt average (Finite (- 2)) \<or> fgt average (Finite 27)
            then (9, s\<lparr> error_loadcell_unreasonable := True \<rparr>)
            else (value_of average, s)) \<and>
         (\<not> fgt (fabs (fsub dispensed_reservoir dispensed_bowl)) (Finite 5) \<and>
          \<not> flt average (Finite (- 2)) \<and> \<not> fgt average (Finite 27) \<longrightarrow>
            average = Finite (value_of average) \<and>
            - 2 \<le> value_of average \<and> value_of average \<le> 27))) \<and>
   estimate_dispensed_weight_grams
     (StateMachine_init\<lparr> feed_reservoir_pre := 500, feed_reservoir_post := 491,
                          feed_bowl_pre := 10, feed_bowl_post := 10.5 \<rparr>) =
     (9, StateMachine_init\<lparr> feed_reservoir_pre := 500, feed_reservoir_post := 491,
                              feed_bowl_pre := 10, feed_bowl_post := 10.5,
                              error_loadcell_disagree := True \<rparr>)"
proof (intro conjI impI)
  assume limp: "loadcell_limp_mode s = None"
  let ?a = "feed_reservoir_pre s - feed_reservoir_post s"
  let ?b = "feed_bowl_post s - feed_bowl_pre s"
  have "\<exists>w. fdiv (fadd (round32 ?a) (round32 ?b)) (Finite 2) = Finite w \<and> - 2 \<le> w \<and> w \<le> 27"
    if "\<not> fgt (fabs (fsub (round32 ?a) (round32 ?b))) (Finite 5)"
      "\<not> flt (fdiv (fadd (round32 ?a) (round32 ?b)) (Finite 2)) (Finite (- 2))"
      "\<not> fgt (fdiv (fadd (round32 ?a) (round32 ?b)) (Finite 2)) (Finite 27)"
    using that by (rule average_finite)
  then show "let dispensed_reservoir =
            fsub (Finite (feed_reservoir_pre s)) (Finite (feed_reservoir_post s));
          dispensed_bowl = fsub (Finite (feed_bowl_post s)) (Finite (feed_bowl_pre s));
          average = fdiv (fadd dispensed_reservoir dispensed_bowl) (Finite 2)
      in estimate_dispensed_weight_grams s =
           (if fgt (fabs (fsub dispensed_reservoir dispensed_bowl)) (Finite 5)
            then (9, s\<lparr> error_loadcell_disagree := True \<rparr>)
            else if flt average (Finite (- 2)) \<or> fgt average (Finite 27)
            then (9, s\<lparr> error_loadcell_unreasonable := True \<rparr>)
            else (value_of average, s)) \<and>
         (\<not> fgt (fabs (fsub dispensed_reservoir dispensed_bowl)) (Finite 5) \<and>
          \<not> flt average (Finite (- 2)) \<and> \<not> fgt average (Finite 27) \<longrightarrow>
            average = Finite (value_of average) \<and>
            - 2 \<le> value_of average \<and> value_of average \<le> 27)"
    unfolding Let_def fsub_Finite estimate_unfold [OF limp] by auto
next
  let ?s = "StateMachine_init\<lparr> feed_reservoir_pre := 500, feed_reservoir_post := 491,
                          feed_bowl_pre := 10, feed_bowl_post := 10.5 \<rparr>"
  have limp: "loadcell_limp_mode ?s = None"
    by (simp add: loadcell_limp_mode_def StateMachine_init_def)
  have a: "round32 (feed_reservoir_pre ?s - feed_reservoir_post ?s) = Finite 9"
    "round32 (feed_bowl_post ?s - feed_bowl_pre ?s) = Finite (1 / 2)"
    by (simp_all add: round32_def round_nearest_examples round_nearest_consts)
  have b: "fsub (Finite 9) (Finite (1 / 2)) = Finite (17 / 2)"
    by (simp add: fsub_Finite round32_def round_nearest_examples)
  show "estimate_dispensed_weight_grams ?s = (9, ?s\<lparr> error_loadcell_disagree := True \<rparr>)"
    unfolding estimate_unfold [OF limp] a b by (simp add: fgt_def)
qed

text \<open>
  The theorem at the feed of the specification that is within tolerance: reservoir 500 g
  then 491 g, bowl 10 g then 19 g, so 9 g by both sensors.
\<close>

theorem estimate_dispensed_weight_witness:
  "loadcell_limp_mode
     (StateMachine_init\<lparr> feed_reservoir_pre := 500, feed_reservoir_post := 491,
                          feed_bowl_pre := 10, feed_bowl_post := 19 \<rparr>) = None \<and>
   \<not> fgt (fabs (fsub (fsub (Finite 500) (Finite 491)) (fsub (Finite 19) (Finite 10)))) (Finite 5) \<and>
   \<not> flt (fdiv (fadd (fsub (Finite 500) (Finite 491)) (fsub (Finite 19) (Finite 10))) (Finite 2))
         (Finite (- 2)) \<and>
   \<not> fgt (fdiv (fadd (fsub (Finite 500) (Finite 491)) (fsub (Finite 19) (Finite 10))) (Finite 2))
         (Finite 27) \<and>
   fdiv (fadd (fsub (Finite 500) (Finite 491)) (fsub (Finite 19) (Finite 10))) (Finite 2) = Finite 9 \<and>
   estimate_dispensed_weight_grams
     (StateMachine_init\<lparr> feed_reservoir_pre := 500, feed_reservoir_post := 491,
                          feed_bowl_pre := 10, feed_bowl_post := 19 \<rparr>) =
     (9, StateMachine_init\<lparr> feed_reservoir_pre := 500, feed_reservoir_post := 491,
                              feed_bowl_pre := 10, feed_bowl_post := 19 \<rparr>)"
proof -
  let ?s = "StateMachine_init\<lparr> feed_reservoir_pre := 500, feed_reservoir_post := 491,
                                feed_bowl_pre := 10, feed_bowl_post := 19 \<rparr>"
  have h: "loadcell_limp_mode ?s = None"
    by (simp add: loadcell_limp_mode_def StateMachine_init_def)
  from estimate_dispensed_weight [of ?s] h show ?thesis
    by (simp add: Let_def fgt_def fsub_Finite round32_def round_nearest_examples
        round_nearest_consts)
qed

section \<open>The deficit over a call of update\<close>

lemma complete_feed_deficit:
  "deficit_mg (complete_feed now s) =
     deficit_mg s - float_to_int (round_nearest (fst (estimate_dispensed_weight_grams s) * 1000))"
  by (simp add: complete_feed_def Let_def case_prod_beta transition_def
      estimate_dispensed_weight_grams_def)

text \<open>
  In \<open>FEED_POST_MEASURE_RESERVOIR\<close> the switch either completes the feed, from a state
  \<open>sx\<close> with the deficit unchanged, or stays in the state and leaves the deficit alone.
\<close>

lemma case_FEED_POST_MEASURE_RESERVOIR_deficit:
  assumes "state s = FEED_POST_MEASURE_RESERVOIR"
  shows "(\<exists>sx. deficit_mg sx = deficit_mg s \<and>
               case_FEED_POST_MEASURE_RESERVOIR t s = complete_feed (report_millis t) sx) \<or>
         (state (case_FEED_POST_MEASURE_RESERVOIR t s) = FEED_POST_MEASURE_RESERVOIR \<and>
          deficit_mg (case_FEED_POST_MEASURE_RESERVOIR t s) = deficit_mg s)"
proof -
  let ?c = "case_FEED_POST_MEASURE_RESERVOIR t s"
  let ?s1 = "snd (handle_loadcell_readout s)"
  let ?left = "\<exists>sx. deficit_mg sx = deficit_mg s \<and> ?c = complete_feed (report_millis t) sx"
  let ?right = "state ?c = FEED_POST_MEASURE_RESERVOIR \<and> deficit_mg ?c = deficit_mg s"
  consider
      (limp) "loadcell_limp_mode s \<noteq> None"
    | (busy) "loadcell_limp_mode s = None" "\<not> fst (handle_loadcell_readout s)"
    | (good) "loadcell_limp_mode s = None" "fst (handle_loadcell_readout s)"
        "flt (stddev (loadcell ?s1)) (Finite 1)"
    | (retry) "loadcell_limp_mode s = None" "fst (handle_loadcell_readout s)"
        "\<not> flt (stddev (loadcell ?s1)) (Finite 1)" "state_retries ?s1 < 5"
    | (noisy) "loadcell_limp_mode s = None" "fst (handle_loadcell_readout s)"
        "\<not> flt (stddev (loadcell ?s1)) (Finite 1)" "\<not> state_retries ?s1 < 5"
    by blast
  then show ?thesis
  proof cases
    case limp
    then have "?c = complete_feed (report_millis t) (s\<lparr> error_reservoir_stddev := True \<rparr>)"
      by (auto simp: case_FEED_POST_MEASURE_RESERVOIR_def)
    moreover have "deficit_mg (s\<lparr> error_reservoir_stddev := True \<rparr>) = deficit_mg s"
      by simp
    ultimately have ?left by blast
    then show ?thesis ..
  next
    case busy
    then have "?c = ?s1"
      by (simp add: case_FEED_POST_MEASURE_RESERVOIR_def case_prod_beta)
    with assms have ?right by simp
    then show ?thesis ..
  next
    case good
    then have "?c = complete_feed (report_millis t)
        (?s1\<lparr> feed_reservoir_post := mean (loadcell ?s1) \<rparr>)"
      by (simp add: case_FEED_POST_MEASURE_RESERVOIR_def case_prod_beta)
    moreover have "deficit_mg (?s1\<lparr> feed_reservoir_post := mean (loadcell ?s1) \<rparr>) = deficit_mg s"
      by simp
    ultimately have ?left by blast
    then show ?thesis ..
  next
    case retry
    then have "?c = transition (state ?s1) ?s1"
      by (simp add: case_FEED_POST_MEASURE_RESERVOIR_def case_prod_beta)
    with assms have ?right by simp
    then show ?thesis ..
  next
    case noisy
    then have "?c = complete_feed (report_millis t) (?s1\<lparr> error_reservoir_stddev := True \<rparr>)"
      by (simp add: case_FEED_POST_MEASURE_RESERVOIR_def case_prod_beta)
    moreover have "deficit_mg (?s1\<lparr> error_reservoir_stddev := True \<rparr>) = deficit_mg s"
      by simp
    ultimately have ?left by blast
    then show ?thesis ..
  qed
qed

lemma handle_state_deficit_mg_other:
  assumes "state s \<noteq> FEED_POST_MEASURE_RESERVOIR"
  shows "deficit_mg (snd (handle_state t s)) = deficit_mg s"
  using assms
  by (simp add: handle_state_def case_defs feed_def Let_def case_prod_beta split: State.split)

lemma sint_add_of_nat:
  fixes x :: int32_t
  assumes "sint x + int k < 2 ^ 31"
  shows "sint (x + of_nat k) = sint x + int k"
proof -
  have "x + of_nat k = word_of_int (sint x + int k)" by simp
  moreover have "- (2 ^ 31) \<le> sint x + int k"
    using sint_ge [of x] by simp
  ultimately show ?thesis
    using assms by (simp only: sint_sbintrunc') (simp add: signed_take_bit_int_eq_self)
qed

text \<open>
  The weight subtracted is the binary32 product of the estimate and 1000, cut to an
  integer. The product is rounded before it is cut: an estimate of \<open>4.35f\<close>, which is a
  little below 4.35, takes 4350 mg off the deficit, where the exact product would be cut
  to 4349. The conversion is exact: the rounded product is within the range of \<^verbatim>\<open>int\<close>.
\<close>

lemma dispensed_mg_rounding:
  "round_nearest 4.35 = 9122611 / 2097152"
  "float_to_int (round_nearest (round_nearest 4.35 * 1000)) = 4350"
  "float_to_int (round_nearest 4.35 * 1000) = 4349"
proof -
  show a: "round_nearest 4.35 = 9122611 / 2097152"
    by (subst round_nearest_eval [where e = "- 21"]) (simp_all add: round_even_def)
  have "round_nearest (9122611 / 2097152 * 1000) = 4350"
    by (subst round_nearest_eval [where e = "- 11"]) (simp_all add: round_even_def)
  then show "float_to_int (round_nearest (round_nearest 4.35 * 1000)) = 4350"
    unfolding a by (simp add: float_to_int_def)
  show "float_to_int (round_nearest 4.35 * 1000) = 4349"
    unfolding a by (simp add: float_to_int_def)
qed

lemma dispensed_mg_exact:
  "sint (float_to_int (round_nearest (fst (estimate_dispensed_weight_grams s) * 1000))) =
     (if 0 \<le> round_nearest (fst (estimate_dispensed_weight_grams s) * 1000)
      then \<lfloor>round_nearest (fst (estimate_dispensed_weight_grams s) * 1000)\<rfloor>
      else \<lceil>round_nearest (fst (estimate_dispensed_weight_grams s) * 1000)\<rceil>)"
  using estimate_range [of s] by (intro sint_float_to_int dispensed_mg_range) simp_all

lemma deficit_mg_returned:
  assumes "update t s = Some (Inr s')"
  shows "\<exists>k.
    (\<forall>j<k. deficit_ms_remain s - (now_millis t - update_prev_millis s)
              + of_nat j * word_sdiv 86400 (grams_per_day s) <s 0) \<and>
    (if state s = FEED_POST_MEASURE_RESERVOIR \<and> state s' = IDLE
     then \<exists>sx. deficit_mg sx = deficit_mg s + of_nat k \<and>
            s' = (complete_feed (report_millis t) sx)\<lparr> pin_motor := False \<rparr> \<and>
            deficit_mg s' =
              deficit_mg sx
                - float_to_int (round_nearest (fst (estimate_dispensed_weight_grams sx) * 1000))
     else deficit_mg s' = deficit_mg s + of_nat k \<and>
          (sint (deficit_mg s) + int k < 2 ^ 31 \<longrightarrow> deficit_mg s \<le>s deficit_mg s'))"
proof -
  let ?d = "now_millis t - update_prev_millis s"
  from assms obtain r m s2 where
    acc: "accrue_deficit (grams_per_day s) (deficit_ms_remain s - ?d) (deficit_mg s) =
            Some (Inr (r, m))" and
    s': "s' = (snd (handle_state t s2))\<lparr> pin_motor := fst (handle_state t s2) \<rparr>" and
    s2: "deficit_mg s2 = m" "state s2 = state s"
    by (rule update_Inr_switch)
  from acc obtain k where "accrued (grams_per_day s) (deficit_ms_remain s - ?d) (deficit_mg s) k (r, m)"
    by (rule accrue_deficit_Inr)
  then have m: "m = deficit_mg s + of_nat k" and
    neg: "\<forall>j<k. deficit_ms_remain s - ?d + of_nat j * word_sdiv 86400 (grams_per_day s) <s 0"
    by (auto simp: accrued_def)
  have mono: "deficit_mg s \<le>s deficit_mg s + of_nat k" if "sint (deficit_mg s) + int k < 2 ^ 31"
    using sint_add_of_nat [OF that] by (simp add: word_sle_eq)
  have "if state s = FEED_POST_MEASURE_RESERVOIR \<and> state s' = IDLE
     then \<exists>sx. deficit_mg sx = deficit_mg s + of_nat k \<and>
            s' = (complete_feed (report_millis t) sx)\<lparr> pin_motor := False \<rparr> \<and>
            deficit_mg s' =
              deficit_mg sx
                - float_to_int (round_nearest (fst (estimate_dispensed_weight_grams sx) * 1000))
     else deficit_mg s' = deficit_mg s + of_nat k \<and>
          (sint (deficit_mg s) + int k < 2 ^ 31 \<longrightarrow> deficit_mg s \<le>s deficit_mg s')"
  proof (cases "state s = FEED_POST_MEASURE_RESERVOIR")
    case False
    with s2 have "deficit_mg (snd (handle_state t s2)) = deficit_mg s2"
      by (simp add: handle_state_deficit_mg_other)
    with s' s2 m have "deficit_mg s' = deficit_mg s + of_nat k" by simp
    with False mono show ?thesis by simp
  next
    case True
    with s2 have st: "state s2 = FEED_POST_MEASURE_RESERVOIR" by simp
    then have hs: "handle_state t s2 = (False, case_FEED_POST_MEASURE_RESERVOIR t s2)"
      by (simp add: handle_state_def)
    from case_FEED_POST_MEASURE_RESERVOIR_deficit [OF st, of t]
    show ?thesis
    proof
      assume "\<exists>sx. deficit_mg sx = deficit_mg s2 \<and>
               case_FEED_POST_MEASURE_RESERVOIR t s2 = complete_feed (report_millis t) sx"
      then obtain sx where sx: "deficit_mg sx = deficit_mg s2"
        "case_FEED_POST_MEASURE_RESERVOIR t s2 = complete_feed (report_millis t) sx"
        by blast
      with s' hs have e: "s' = (complete_feed (report_millis t) sx)\<lparr> pin_motor := False \<rparr>"
        by simp
      then have "state s' = IDLE"
        "deficit_mg s' =
           deficit_mg sx
             - float_to_int (round_nearest (fst (estimate_dispensed_weight_grams sx) * 1000))"
        by (simp_all add: complete_feed_deficit)
      with True e sx(1) s2(1) m show ?thesis by auto
    next
      assume a: "state (case_FEED_POST_MEASURE_RESERVOIR t s2) = FEED_POST_MEASURE_RESERVOIR \<and>
          deficit_mg (case_FEED_POST_MEASURE_RESERVOIR t s2) = deficit_mg s2"
      with s' hs have "state s' \<noteq> IDLE" "deficit_mg s' = deficit_mg s2" by simp_all
      with s2(1) m mono show ?thesis by simp
    qed
  qed
  with neg show ?thesis by blast
qed

text \<open>
  Claim C5, as amended. A call of \<open>update\<close> returns whenever the load cell driver's count
  of remaining samples is within 0 to 32 and \<open>grams_per_day\<close> is within 1 to 86400. Over
  a call that returns, the deficit loop adds its number \<open>k\<close> of rounds to \<open>deficit_mg\<close>, in
  32 bits. Unless the call completes a feed (it starts in \<open>FEED_POST_MEASURE_RESERVOIR\<close>
  and ends in \<open>IDLE\<close>), nothing else touches \<open>deficit_mg\<close>, which therefore does not
  decrease as long as the addition does not pass \<open>2 ^ 31 - 1\<close>. When the call completes a
  feed, \<open>complete_feed\<close> runs on a state \<open>sx\<close> that carries the deficit after the loop, and
  subtracts exactly the binary32 product of the estimated weight of that state and 1000,
  cut to an integer.
\<close>

theorem deficit_mg_over_update:
  "(0 \<le>s samples_remaining (loadcell s) \<and> samples_remaining (loadcell s) \<le>s 32 \<and>
    0 <s grams_per_day s \<and> grams_per_day s \<le>s 86400 \<longrightarrow>
      (\<exists>s'. update t s = Some (Inr s'))) \<and>
   (\<forall>s'. update t s = Some (Inr s') \<longrightarrow>
     (\<exists>k.
       (\<forall>j<k. deficit_ms_remain s - (now_millis t - update_prev_millis s)
                 + of_nat j * word_sdiv 86400 (grams_per_day s) <s 0) \<and>
       (if state s = FEED_POST_MEASURE_RESERVOIR \<and> state s' = IDLE
        then \<exists>sx. deficit_mg sx = deficit_mg s + of_nat k \<and>
               s' = (complete_feed (report_millis t) sx)\<lparr> pin_motor := False \<rparr> \<and>
               deficit_mg s' =
                 deficit_mg sx
                   - float_to_int (round_nearest (fst (estimate_dispensed_weight_grams sx) * 1000))
        else deficit_mg s' = deficit_mg s + of_nat k \<and>
             (sint (deficit_mg s) + int k < 2 ^ 31 \<longrightarrow> deficit_mg s \<le>s deficit_mg s'))))"
  using update_returns_in_range [of s t] deficit_mg_returned [of t s]
  by blast

text \<open>
  Claim C5 as stated fails: at the largest deficit that 32 bits hold, a call of \<open>update\<close>
  in \<open>IDLE\<close>, one millisecond after the last, runs one round of the deficit loop; the
  deficit wraps around to the least number and no feed is completed.
\<close>

lemma deficit_wrap_example:
  "update tick_1ms (StateMachine_init\<lparr> deficit_mg := 2147483647 \<rparr>) =
   Some (Inr (update_tail tick_1ms 1
     (StateMachine_init\<lparr> deficit_mg := 2147483647 \<rparr>
        \<lparr> update_prev_millis := 1, deficit_ms_remain := 1439, deficit_mg := 2147483647 + 1,
          mqtt_deficit := round_nearest (- 2147483648 / 1000) \<rparr>)))"
proof -
  have r: "round_nearest (- 2147483648) = - 2147483648"
    by (subst round_nearest_eval [where e = 8]) simp_all
  show ?thesis
    by (simp add: update_def update_deficit_def StateMachine_init_def Loadcell_update_def
      Loadcell_init_def accrue_deficit_step accrue_deficit_done word_sdiv_def word_sless_alt
      tick_1ms_def r)
qed

theorem deficit_mg_counterexample:
  "state (StateMachine_init\<lparr> deficit_mg := 2147483647 \<rparr>) = IDLE \<and>
   deficit_mg (StateMachine_init\<lparr> deficit_mg := 2147483647 \<rparr>) = 2147483647 \<and>
   map_option (map_sum id deficit_mg)
     (update tick_1ms (StateMachine_init\<lparr> deficit_mg := 2147483647 \<rparr>)) =
     Some (Inr (- 2147483648)) \<and>
   map_option (map_sum id feed_report)
     (update tick_1ms (StateMachine_init\<lparr> deficit_mg := 2147483647 \<rparr>)) =
     Some (Inr \<lparr> result = NONE, arg = 0, millis = 0 \<rparr>) \<and>
   (- 2147483648 :: int32_t) <s 2147483647"
  by (simp add: deficit_wrap_example)
     (simp add: StateMachine_init_def tick_1ms_def update_tail_defs handle_state_def
        case_IDLE_def need_to_feed_def transition_def start_for_state_def Loadcell_start_def
        word_sless_alt Let_def)

lemma post_feed_example:
  "update tick_limit example_post_feed = Some (Inr (update_tail tick_limit 0 example_post_feed))"
  by (simp add: update_def update_deficit_def example_post_feed_def StateMachine_init_def
      Loadcell_update_def Loadcell_init_def accrue_deficit_done word_sless_alt tick_limit_def
      round_nearest_consts)

text \<open>
  The theorem at the end of a feed that dispensed 9 g by both sensors: the call returns,
  completes the feed and takes the deficit from 9000 to 0.
\<close>

theorem deficit_mg_over_update_witness:
  "0 \<le>s samples_remaining (loadcell example_post_feed) \<and>
   samples_remaining (loadcell example_post_feed) \<le>s 32 \<and>
   0 <s grams_per_day example_post_feed \<and> grams_per_day example_post_feed \<le>s 86400 \<and>
   (\<exists>s'. update tick_limit example_post_feed = Some (Inr s')) \<and>
   update tick_limit example_post_feed =
     Some (Inr (update_tail tick_limit 0 example_post_feed)) \<and>
   (\<exists>k.
    (\<forall>j<k. deficit_ms_remain example_post_feed
                - (now_millis tick_limit - update_prev_millis example_post_feed)
              + of_nat j * word_sdiv 86400 (grams_per_day example_post_feed) <s 0) \<and>
    (if state example_post_feed = FEED_POST_MEASURE_RESERVOIR \<and>
        state (update_tail tick_limit 0 example_post_feed) = IDLE
     then \<exists>sx. deficit_mg sx = deficit_mg example_post_feed + of_nat k \<and>
            update_tail tick_limit 0 example_post_feed =
              (complete_feed (report_millis tick_limit) sx)\<lparr> pin_motor := False \<rparr> \<and>
            deficit_mg (update_tail tick_limit 0 example_post_feed) =
              deficit_mg sx
                - float_to_int (round_nearest (fst (estimate_dispensed_weight_grams sx) * 1000))
     else deficit_mg (update_tail tick_limit 0 example_post_feed) =
            deficit_mg example_post_feed + of_nat k \<and>
          (sint (deficit_mg example_post_feed) + int k < 2 ^ 31 \<longrightarrow>
             deficit_mg example_post_feed \<le>s
               deficit_mg (update_tail tick_limit 0 example_post_feed)))) \<and>
   state example_post_feed = FEED_POST_MEASURE_RESERVOIR \<and>
   state (update_tail tick_limit 0 example_post_feed) = IDLE \<and>
   deficit_mg example_post_feed = 9000 \<and>
   deficit_mg (update_tail tick_limit 0 example_post_feed) = 0"
proof -
  have r: "0 \<le>s samples_remaining (loadcell example_post_feed)"
    "samples_remaining (loadcell example_post_feed) \<le>s 32"
    "0 <s grams_per_day example_post_feed" "grams_per_day example_post_feed \<le>s 86400"
    by (simp_all add: example_post_feed_def StateMachine_init_def Loadcell_init_def
        word_sle_eq word_sless_alt)
  have s: "state example_post_feed = FEED_POST_MEASURE_RESERVOIR"
    "deficit_mg example_post_feed = 9000"
    by (simp_all add: example_post_feed_def)
  have s': "state (update_tail tick_limit 0 example_post_feed) = IDLE"
    "deficit_mg (update_tail tick_limit 0 example_post_feed) = 0"
    by (simp_all add: example_post_feed_def StateMachine_init_def Loadcell_init_def
        tick_limit_def update_tail_defs handle_state_def case_FEED_POST_MEASURE_RESERVOIR_def
        handle_loadcell_readout_def is_busy_def word_sless_alt loadcell_limp_mode_def
        complete_feed_def estimate_dispensed_weight_grams_def transition_def float_to_int_def
        FEED_ASSUMED_WEIGHT_GRAMS_def FEED_MAX_DISAGREE_GRAMS_def Let_def
        fsub_Finite fgt_def round32_def round_nearest_consts round_nearest_examples)
  note inst = deficit_mg_over_update [of example_post_feed tick_limit]
  from inst r have a: "\<exists>s'. update tick_limit example_post_feed = Some (Inr s')"
    by blast
  from inst post_feed_example have b: "\<exists>k.
    (\<forall>j<k. deficit_ms_remain example_post_feed
                - (now_millis tick_limit - update_prev_millis example_post_feed)
              + of_nat j * word_sdiv 86400 (grams_per_day example_post_feed) <s 0) \<and>
    (if state example_post_feed = FEED_POST_MEASURE_RESERVOIR \<and>
        state (update_tail tick_limit 0 example_post_feed) = IDLE
     then \<exists>sx. deficit_mg sx = deficit_mg example_post_feed + of_nat k \<and>
            update_tail tick_limit 0 example_post_feed =
              (complete_feed (report_millis tick_limit) sx)\<lparr> pin_motor := False \<rparr> \<and>
            deficit_mg (update_tail tick_limit 0 example_post_feed) =
              deficit_mg sx
                - float_to_int (round_nearest (fst (estimate_dispensed_weight_grams sx) * 1000))
     else deficit_mg (update_tail tick_limit 0 example_post_feed) =
            deficit_mg example_post_feed + of_nat k \<and>
          (sint (deficit_mg example_post_feed) + int k < 2 ^ 31 \<longrightarrow>
             deficit_mg example_post_feed \<le>s
               deficit_mg (update_tail tick_limit 0 example_post_feed)))"
    by blast
  from r a post_feed_example b s s' show ?thesis
    by (intro conjI)
qed

section \<open>Jam escalation\<close>

lemma estimate_keeps_jam_state:
  "feed_jammed_retries (snd (estimate_dispensed_weight_grams s)) = feed_jammed_retries s"
  "maintenance_mode (snd (estimate_dispensed_weight_grams s)) = maintenance_mode s"
  by (simp_all add: estimate_dispensed_weight_grams_def Let_def)



text \<open>
  A feed estimated at exactly \<open>2.7f\<close>, a number a little above 2.7, counts as jammed: from
  two jammed feeds before, the counter reaches 3 and the mode is \<open>JAMMED\<close>.
\<close>

lemma jam_at_threshold_example:
  "fst (estimate_dispensed_weight_grams
     (StateMachine_init\<lparr> feed_jammed_retries := 2, feed_reservoir_pre := 11324621 / 4194304,
        feed_bowl_post := 11324621 / 4194304 \<rparr>)) = 11324621 / 4194304"
  "(2.7 :: real) < 11324621 / 4194304"
  "feed_jammed_retries (complete_feed 0
     (StateMachine_init\<lparr> feed_jammed_retries := 2, feed_reservoir_pre := 11324621 / 4194304,
        feed_bowl_post := 11324621 / 4194304 \<rparr>)) = 3"
  "maintenance_mode (complete_feed 0
     (StateMachine_init\<lparr> feed_jammed_retries := 2, feed_reservoir_pre := 11324621 / 4194304,
        feed_bowl_post := 11324621 / 4194304 \<rparr>)) = JAMMED"
proof -
  let ?s = "StateMachine_init\<lparr> feed_jammed_retries := 2,
     feed_reservoir_pre := 11324621 / 4194304, feed_bowl_post := 11324621 / 4194304 \<rparr>"
  have r: "round_nearest (11324621 / 4194304) = 11324621 / 4194304"
    "round_nearest (11324621 / 2097152) = 11324621 / 2097152"
  proof -
    show "round_nearest (11324621 / 4194304) = 11324621 / 4194304"
      by (subst round_nearest_eval [where e = "- 22"]) simp_all
    show "round_nearest (11324621 / 2097152) = 11324621 / 2097152"
      by (subst round_nearest_eval [where e = "- 21"]) simp_all
  qed
  show e: "fst (estimate_dispensed_weight_grams ?s) = 11324621 / 4194304"
    by (simp add: estimate_dispensed_weight_grams_def FEED_MAX_DISAGREE_GRAMS_def
      FEED_ASSUMED_WEIGHT_GRAMS_def Let_def StateMachine_init_def loadcell_limp_mode_def
      fsub_Finite fgt_def round32_def round_nearest_consts r)
  show "(2.7 :: real) < 11324621 / 4194304" by simp
  have j: "feed_jammed_retries (snd (estimate_dispensed_weight_grams ?s)) = 2"
    "maintenance_mode (snd (estimate_dispensed_weight_grams ?s)) = OPERATIONAL"
    by (simp_all add: estimate_keeps_jam_state) (simp add: StateMachine_init_def)
  show "feed_jammed_retries (complete_feed 0 ?s) = 3"
    "maintenance_mode (complete_feed 0 ?s) = JAMMED"
    using e j
    by (simp_all add: complete_feed_def case_prod_beta Let_def transition_def jam_threshold
        FEED_MAX_RETRIES_def)
qed


section \<open>Noise before a feed\<close>

text \<open>
  A pre-feed measurement whose reading is in and noisy, with the retries in the state used
  up: the switch takes the readout, and then either aborts the feed or flags the noise.
\<close>

lemma readout_done:
  assumes "loadcell_limp_mode s = None"
    and "10000 < millis_since_transition s \<or> \<not> is_busy (loadcell s)"
  shows "fst (handle_loadcell_readout s)"
    "loadcell (snd (handle_loadcell_readout s)) = loadcell s"
    "state_retries (snd (handle_loadcell_readout s)) = state_retries s"
    "feed_sensor_retries (snd (handle_loadcell_readout s)) = feed_sensor_retries s"
    "feed_report (snd (handle_loadcell_readout s)) = feed_report s"
    "maintenance_mode (snd (handle_loadcell_readout s)) = maintenance_mode s"
    "deficit_threshold_mg (snd (handle_loadcell_readout s)) = deficit_threshold_mg s"
    "update_prev_millis (snd (handle_loadcell_readout s)) = update_prev_millis s"
  using assms
  by (auto simp: handle_loadcell_readout_def split: Sensor.split)

lemma sensor_retry_abort_result:
  "state (sensor_retry_abort now s) = IDLE"
  "feed_report (sensor_retry_abort now s) =
     \<lparr> result = SENSOR_RETRY, arg = ucast (feed_sensor_retries s + 1), millis = now \<rparr>"
  "feed_sensor_retries (sensor_retry_abort now s) = feed_sensor_retries s + 1"
  "millis_since_feed_attempt (sensor_retry_abort now s) = 0"
  "maintenance_mode (sensor_retry_abort now s) = maintenance_mode s"
  "deficit_mg (sensor_retry_abort now s) = deficit_mg s"
  "deficit_threshold_mg (sensor_retry_abort now s) = deficit_threshold_mg s"
  "update_prev_millis (sensor_retry_abort now s) = update_prev_millis s"
  by (simp_all add: sensor_retry_abort_def transition_def Let_def)

lemma pre_measure_exhausted:
  assumes "loadcell_limp_mode s = None"
    and "10000 < millis_since_transition s \<or> \<not> is_busy (loadcell s)"
    and "\<not> flt (stddev (loadcell s)) (Finite 1)" and "\<not> state_retries s < 5"
  shows "case_FEED_PRE_MEASURE_RESERVOIR t s =
     (if feed_sensor_retries s \<le> 3
      then sensor_retry_abort (report_millis t) (snd (handle_loadcell_readout s))
      else transition FEED_PRE_MEASURE_BOWL
             ((snd (handle_loadcell_readout s))\<lparr> error_reservoir_stddev := True \<rparr>))"
    and "case_FEED_PRE_MEASURE_BOWL t s =
     (if feed_sensor_retries s \<le> 3
      then sensor_retry_abort (report_millis t) (snd (handle_loadcell_readout s))
      else transition FEED_RUN_SYNC
             ((snd (handle_loadcell_readout s))\<lparr> error_bowl_stddev := True \<rparr>))"
  using assms readout_done [OF assms(1,2)]
  by (simp_all add: case_FEED_PRE_MEASURE_RESERVOIR_def case_FEED_PRE_MEASURE_BOWL_def
      case_prod_beta Let_def FEED_MAX_RETRIES_def)

subsection \<open>The cooldown after an attempt\<close>

text \<open>
  Outside a feed (in \<open>IDLE\<close> and in the states of taring and of measuring between feeds)
  the switch leaves the time since the last feed attempt, the mode, the threshold, the
  deficit and the feed report alone; and it stays outside a feed unless \<open>need_to_feed\<close>
  answers \<open>NOT_BLOCKED\<close>.
\<close>

lemma idle_parts_frame [simp]:
  "millis_since_feed_attempt (transition st s) = millis_since_feed_attempt s"
  "maintenance_mode (transition st s) = maintenance_mode s"
  "deficit_threshold_mg (transition st s) = deficit_threshold_mg s"
  "update_prev_millis (transition st s) = update_prev_millis s"
  "millis_since_feed_attempt (snd (handle_loadcell_readout s)) = millis_since_feed_attempt s"
  "maintenance_mode (snd (handle_loadcell_readout s)) = maintenance_mode s"
  "deficit_threshold_mg (snd (handle_loadcell_readout s)) = deficit_threshold_mg s"
  "update_prev_millis (snd (handle_loadcell_readout s)) = update_prev_millis s"
  "feed_report (snd (handle_loadcell_readout s)) = feed_report s"
  by (simp_all add: transition_def handle_loadcell_readout_def split: Sensor.split)

lemma idle_switch_frame:
  assumes "\<not> feeding_state (state s)"
  shows "millis_since_feed_attempt (snd (handle_state t s)) = millis_since_feed_attempt s"
    "maintenance_mode (snd (handle_state t s)) = maintenance_mode s"
    "deficit_threshold_mg (snd (handle_state t s)) = deficit_threshold_mg s"
    "deficit_mg (snd (handle_state t s)) = deficit_mg s"
    "feed_report (snd (handle_state t s)) = feed_report s"
    "update_prev_millis (snd (handle_state t s)) = update_prev_millis s"
  using assms
  by (cases "state s";
      simp add: handle_state_def feeding_state_def case_IDLE_def case_IDLE_TARE_RESERVOIR_WAIT_def
        case_IDLE_readout_def feed_def Let_def case_prod_beta)+

lemma idle_switch_stays:
  assumes "\<not> feeding_state (state s)" and "need_to_feed s \<noteq> NOT_BLOCKED"
  shows "\<not> feeding_state (state (snd (handle_state t s)))"
  using assms
  by (cases "state s";
      simp add: handle_state_def feeding_state_def case_IDLE_def case_IDLE_TARE_RESERVOIR_WAIT_def
        case_IDLE_readout_def Let_def case_prod_beta)

lemma need_to_feed_cooldown:
  assumes "maintenance_mode u = OPERATIONAL" and "\<not> deficit_mg u <s deficit_threshold_mg u"
  shows "need_to_feed u = COOLDOWN \<longleftrightarrow> millis_since_feed_attempt u < 300000"
    and "need_to_feed u = NOT_BLOCKED \<longleftrightarrow> \<not> millis_since_feed_attempt u < 300000"
  using assms by (simp_all add: need_to_feed_def FEED_COOLDOWN_MILLIS_def)

lemma need_to_feed_blocked:
  assumes "millis_since_feed_attempt u < 300000"
  shows "need_to_feed u \<noteq> NOT_BLOCKED"
  using assms
  by (simp add: need_to_feed_def FEED_COOLDOWN_MILLIS_def split: MaintenanceMode.split)

lemma need_to_feed_elapsed:
  assumes "\<not> millis_since_feed_attempt u < 300000"
  shows "need_to_feed u \<noteq> COOLDOWN"
  using assms
  by (simp add: need_to_feed_def FEED_COOLDOWN_MILLIS_def split: MaintenanceMode.split)

text \<open>
  One call of \<open>update\<close> outside a feed: the time since the last attempt grows by the time
  since the last call, and the machine stays outside a feed when that time is still below
  the cooldown.
\<close>

lemma update_idle_step:
  assumes "update t u = Some (Inr u')" and "\<not> feeding_state (state u)"
  shows "millis_since_feed_attempt u' =
           millis_since_feed_attempt u + (now_millis t - update_prev_millis u)"
    "update_prev_millis u' = now_millis t"
    "maintenance_mode u' = maintenance_mode u"
    "deficit_threshold_mg u' = deficit_threshold_mg u"
    "feed_report u' = feed_report u"
    "millis_since_feed_attempt u + (now_millis t - update_prev_millis u) < 300000 \<Longrightarrow>
       \<not> feeding_state (state u')"
proof -
  from assms(1) obtain s2 where
    u': "u' = (snd (handle_state t s2))\<lparr> pin_motor := fst (handle_state t s2) \<rparr>" and
    s2: "state s2 = state u" "maintenance_mode s2 = maintenance_mode u"
      "deficit_threshold_mg s2 = deficit_threshold_mg u"
      "millis_since_feed_attempt s2 =
         millis_since_feed_attempt u + (now_millis t - update_prev_millis u)"
      "feed_report s2 = feed_report u"
      "update_prev_millis s2 = now_millis t"
    by (rule update_Inr_switch)
  from assms(2) s2(1) have idle: "\<not> feeding_state (state s2)" by simp
  note f = idle_switch_frame [OF idle, of t]
  show "millis_since_feed_attempt u' =
           millis_since_feed_attempt u + (now_millis t - update_prev_millis u)"
    "update_prev_millis u' = now_millis t"
    "maintenance_mode u' = maintenance_mode u"
    "deficit_threshold_mg u' = deficit_threshold_mg u"
    "feed_report u' = feed_report u"
    unfolding u' using f s2 by simp_all
  assume "millis_since_feed_attempt u + (now_millis t - update_prev_millis u) < 300000"
  with s2(4) have "need_to_feed s2 \<noteq> NOT_BLOCKED"
    by (intro need_to_feed_blocked) simp
  from idle_switch_stays [OF idle this, of t] show "\<not> feeding_state (state u')"
    unfolding u' by simp
qed

text \<open>
  A run of calls of \<open>update\<close> that starts outside a feed, at a state whose time since the
  last feed attempt is the time since the instant \<open>t0\<close> and below the cooldown, and whose
  calls are all made less than the cooldown after \<open>t0\<close>: the machine is outside a feed all
  along and the time since the last feed attempt is the time since \<open>t0\<close>.
\<close>

lemma cooldown_run:
  assumes "run (map Update ts) u0 = Some (Inr u)"
    and "\<not> feeding_state (state u0)"
    and "millis_since_feed_attempt u0 = update_prev_millis u0 - t0"
    and "\<forall>t'\<in>set ts. now_millis t' - t0 < 300000"
  shows "\<not> feeding_state (state u) \<and>
    millis_since_feed_attempt u = update_prev_millis u - t0 \<and>
    (ts \<noteq> [] \<longrightarrow> update_prev_millis u = now_millis (last ts)) \<and>
    (ts = [] \<longrightarrow> u = u0) \<and>
    maintenance_mode u = maintenance_mode u0 \<and>
    deficit_threshold_mg u = deficit_threshold_mg u0 \<and>
    feed_report u = feed_report u0"
  using assms
proof (induction ts arbitrary: u0)
  case Nil
  then show ?case by simp
next
  case (Cons t1 ts)
  from Cons.prems(1) obtain u1 where
    u1: "update t1 u0 = Some (Inr u1)" and rest: "run (map Update ts) u1 = Some (Inr u)"
    by (auto split: option.splits sum.splits)
  have e: "millis_since_feed_attempt u0 + (now_millis t1 - update_prev_millis u0)
      = now_millis t1 - t0"
    using Cons.prems(3) by simp
  from Cons.prems(4) have "now_millis t1 - t0 < 300000" by simp
  then have lt: "millis_since_feed_attempt u0
      + (now_millis t1 - update_prev_millis u0) < 300000"
    by (simp only: e)
  note st = update_idle_step [OF u1 Cons.prems(2)]
  from st(6) [OF lt] have i1: "\<not> feeding_state (state u1)" .
  from st(1,2) e have m1: "millis_since_feed_attempt u1 = update_prev_millis u1 - t0"
    by simp
  from Cons.prems(4) have w1: "\<forall>t'\<in>set ts. now_millis t' - t0 < 300000" by simp
  from Cons.IH [OF rest i1 m1 w1] st(2,3,4,5) rest show ?case
    by (cases ts) auto
qed

lemma run_append:
  "run (cs @ ds) s =
     (case run cs s of None \<Rightarrow> None | Some (Inl f) \<Rightarrow> Some (Inl f) | Some (Inr s') \<Rightarrow> run ds s')"
  by (induction cs arbitrary: s) (auto split: option.splits sum.splits)

text \<open>The first call made when the cooldown has passed finds it passed.\<close>

lemma cooldown_over:
  assumes "run (map Update (ts @ [t2])) u0 = Some (Inr u2)"
    and "\<not> feeding_state (state u0)"
    and "millis_since_feed_attempt u0 = update_prev_millis u0 - t0"
    and "\<forall>t'\<in>set ts. now_millis t' - t0 < 300000"
    and "\<not> now_millis t2 - t0 < 300000"
  shows "millis_since_feed_attempt u2 = now_millis t2 - t0 \<and> need_to_feed u2 \<noteq> COOLDOWN"
proof -
  from assms(1) obtain u where
    u: "run (map Update ts) u0 = Some (Inr u)" and u2: "update t2 u = Some (Inr u2)"
    by (auto simp: run_append split: option.splits sum.splits)
  from cooldown_run [OF u assms(2,3,4)] have
    i: "\<not> feeding_state (state u)" and
    m: "millis_since_feed_attempt u = update_prev_millis u - t0"
    by simp_all
  from update_idle_step(1) [OF u2 i] m
  have e: "millis_since_feed_attempt u2 = now_millis t2 - t0" by simp
  with assms(5) have "\<not> millis_since_feed_attempt u2 < 300000" by simp
  then have "need_to_feed u2 \<noteq> COOLDOWN" by (rule need_to_feed_elapsed)
  with e show ?thesis by simp
qed

lemma sensor_retry_returned:
  assumes "state s = FEED_PRE_MEASURE_RESERVOIR \<or> state s = FEED_PRE_MEASURE_BOWL"
    and "loadcell_limp_mode s = None"
    and "Loadcell_update (hx_ready t) (hx_value t) (loadcell s) = Inr lc"
    and "10000 < millis_since_transition s + (now_millis t - update_prev_millis s) \<or> \<not> is_busy lc"
    and "\<not> flt (stddev lc) (Finite 1)" and "\<not> state_retries s < 5"
    and "update t s = Some (Inr s')"
  shows "if feed_sensor_retries s \<le> 3
     then state s' = IDLE \<and>
       feed_report s' = \<lparr> result = SENSOR_RETRY, arg = ucast (feed_sensor_retries s + 1),
                          millis = report_millis t \<rparr> \<and>
       feed_sensor_retries s' = feed_sensor_retries s + 1 \<and>
       millis_since_feed_attempt s' = 0 \<and>
       update_prev_millis s' = now_millis t \<and>
       maintenance_mode s' = maintenance_mode s \<and>
       deficit_threshold_mg s' = deficit_threshold_mg s
     else feed_report s' = feed_report s \<and>
       feed_sensor_retries s' = feed_sensor_retries s \<and>
       (if state s = FEED_PRE_MEASURE_RESERVOIR
        then state s' = FEED_PRE_MEASURE_BOWL \<and> error_reservoir_stddev s'
        else state s' = FEED_RUN_SYNC \<and> error_bowl_stddev s')"
proof -
  from assms(7) obtain lc' s2 where
    lc': "Loadcell_update (hx_ready t) (hx_value t) (loadcell s) = Inr lc'" and
    s': "s' = (snd (handle_state t s2))\<lparr> pin_motor := fst (handle_state t s2) \<rparr>" and
    s2: "loadcell s2 = lc'" "state s2 = state s" "maintenance_mode s2 = maintenance_mode s"
      "error_reservoir_stddev s2 = error_reservoir_stddev s"
      "error_bowl_stddev s2 = error_bowl_stddev s"
      "error_loadcell_timeout s2 = error_loadcell_timeout s"
      "error_loadcell_disagree s2 = error_loadcell_disagree s"
      "error_loadcell_unreasonable s2 = error_loadcell_unreasonable s"
      "deficit_threshold_mg s2 = deficit_threshold_mg s"
      "millis_since_transition s2 =
         millis_since_transition s + (now_millis t - update_prev_millis s)"
      "state_retries s2 = state_retries s"
      "feed_sensor_retries s2 = feed_sensor_retries s"
      "feed_report s2 = feed_report s"
      "update_prev_millis s2 = now_millis t"
    by (rule update_Inr_switch)
  from lc' assms(3) s2(1) have lc: "loadcell s2 = lc" by simp
  let ?s1 = "snd (handle_loadcell_readout s2)"
  from assms(2) s2 have limp: "loadcell_limp_mode s2 = None"
    by (simp add: loadcell_limp_mode_def split: if_splits)
  from assms(4) s2 lc have over: "10000 < millis_since_transition s2 \<or> \<not> is_busy (loadcell s2)"
    by simp
  from assms(5,6) s2 lc have noisy: "\<not> flt (stddev (loadcell s2)) (Finite 1)"
    "\<not> state_retries s2 < 5"
    by simp_all
  note r = readout_done [OF limp over]
  note c = pre_measure_exhausted [OF limp over noisy, of t]
  show ?thesis
  proof (cases "feed_sensor_retries s \<le> 3")
    case True
    with c s2 have
      "snd (handle_state t s2) = sensor_retry_abort (report_millis t) ?s1"
      using assms(1) by (auto simp: handle_state_def)
    with s' have e: "s' = (sensor_retry_abort (report_millis t) ?s1)\<lparr> pin_motor := fst (handle_state t s2) \<rparr>"
      by simp
    have "state s' = IDLE"
      "feed_report s' = \<lparr> result = SENSOR_RETRY, arg = ucast (feed_sensor_retries s + 1),
                          millis = report_millis t \<rparr>"
      "feed_sensor_retries s' = feed_sensor_retries s + 1"
      "millis_since_feed_attempt s' = 0"
      "update_prev_millis s' = now_millis t"
      "maintenance_mode s' = maintenance_mode s"
      "deficit_threshold_mg s' = deficit_threshold_mg s"
      unfolding e using r s2 by (simp_all add: sensor_retry_abort_result)
    with True show ?thesis by simp
  next
    case False
    show ?thesis
    proof (cases "state s = FEED_PRE_MEASURE_RESERVOIR")
      case True
      with c(1) s2 False have
        "snd (handle_state t s2) =
           transition FEED_PRE_MEASURE_BOWL (?s1\<lparr> error_reservoir_stddev := True \<rparr>)"
        by (simp add: handle_state_def)
      with s' have "s' = (transition FEED_PRE_MEASURE_BOWL (?s1\<lparr> error_reservoir_stddev := True \<rparr>))
          \<lparr> pin_motor := fst (handle_state t s2) \<rparr>"
        by simp
      then have "state s' = FEED_PRE_MEASURE_BOWL" "error_reservoir_stddev s'"
        "feed_report s' = feed_report s" "feed_sensor_retries s' = feed_sensor_retries s"
        using r s2 by (simp_all add: transition_def)
      with True False show ?thesis by simp
    next
      case nr: False
      with assms(1) have b: "state s = FEED_PRE_MEASURE_BOWL" by simp
      with c(2) s2 False have
        "snd (handle_state t s2) =
           transition FEED_RUN_SYNC (?s1\<lparr> error_bowl_stddev := True \<rparr>)"
        by (simp add: handle_state_def)
      with s' have "s' = (transition FEED_RUN_SYNC (?s1\<lparr> error_bowl_stddev := True \<rparr>))
          \<lparr> pin_motor := fst (handle_state t s2) \<rparr>"
        by simp
      then have "state s' = FEED_RUN_SYNC" "error_bowl_stddev s'"
        "feed_report s' = feed_report s" "feed_sensor_retries s' = feed_sensor_retries s"
        using r s2 by (simp_all add: transition_def)
      with nr False show ?thesis by simp
    qed
  qed
qed

text \<open>
  Claim C7, as amended. In a pre-feed measurement state with no limp-mode flag set, when
  the load cell driver does not stop at a fault, the readout is over (the reading is in,
  or the 10 second timeout has passed), the reading is noisy and the 5 retries in the
  state are used up, a call of \<open>update\<close> returns whenever \<open>grams_per_day\<close> is within 1 to
  86400, and every call that returns does the following. If at most 3 feeds have been
  aborted before, the feed is aborted: the count goes up by one and is the argument of
  the \<open>SENSOR_RETRY\<close> report, the machine is in \<open>IDLE\<close>, and the time since the last feed
  attempt is 0. Then over every run of further calls of \<open>update\<close> that return, all made
  less than 300000 ms after the aborting call, the machine stays outside a feed, the
  report stays, and \<open>need_to_feed\<close> does not answer \<open>NOT_BLOCKED\<close>; it answers \<open>COOLDOWN\<close>
  when the mode is operational and the deficit is at the threshold or above. At the
  first further call made 300000 ms or more after the aborting call, \<open>need_to_feed\<close> no
  longer answers \<open>COOLDOWN\<close>. If more than 3 feeds have been aborted before, the feed is not
  aborted: the noise flag of the sensor is set and the machine goes on to the next state
  of the feed.
\<close>

theorem sensor_retry_abort_or_limp:
  assumes "state s = FEED_PRE_MEASURE_RESERVOIR \<or> state s = FEED_PRE_MEASURE_BOWL"
    and "loadcell_limp_mode s = None"
    and "Loadcell_update (hx_ready t) (hx_value t) (loadcell s) = Inr lc"
    and "10000 < millis_since_transition s + (now_millis t - update_prev_millis s) \<or> \<not> is_busy lc"
    and "\<not> flt (stddev lc) (Finite 1)" and "\<not> state_retries s < 5"
  shows "(0 <s grams_per_day s \<and> grams_per_day s \<le>s 86400 \<longrightarrow>
           (\<exists>s'. update t s = Some (Inr s'))) \<and>
    (\<forall>s'. update t s = Some (Inr s') \<longrightarrow>
      (if feed_sensor_retries s \<le> 3
       then state s' = IDLE \<and>
         feed_report s' = \<lparr> result = SENSOR_RETRY, arg = ucast (feed_sensor_retries s + 1),
                            millis = report_millis t \<rparr> \<and>
         feed_sensor_retries s' = feed_sensor_retries s + 1 \<and>
         millis_since_feed_attempt s' = 0 \<and>
         (\<forall>ts u. run (map Update ts) s' = Some (Inr u) \<and>
                 (\<forall>t'\<in>set ts. now_millis t' - now_millis t < 300000) \<longrightarrow>
            \<not> feeding_state (state u) \<and>
            feed_report u = feed_report s' \<and>
            need_to_feed u \<noteq> NOT_BLOCKED \<and>
            (maintenance_mode s = OPERATIONAL \<and> \<not> deficit_mg u <s deficit_threshold_mg s \<longrightarrow>
               need_to_feed u = COOLDOWN)) \<and>
         (\<forall>ts t2 u. run (map Update (ts @ [t2])) s' = Some (Inr u) \<and>
                 (\<forall>t'\<in>set ts. now_millis t' - now_millis t < 300000) \<and>
                 \<not> now_millis t2 - now_millis t < 300000 \<longrightarrow>
            need_to_feed u \<noteq> COOLDOWN)
       else feed_report s' = feed_report s \<and>
         feed_sensor_retries s' = feed_sensor_retries s \<and>
         (if state s = FEED_PRE_MEASURE_RESERVOIR
          then state s' = FEED_PRE_MEASURE_BOWL \<and> error_reservoir_stddev s'
          else state s' = FEED_RUN_SYNC \<and> error_bowl_stddev s')))"
proof (intro conjI impI allI)
  assume "0 <s grams_per_day s \<and> grams_per_day s \<le>s 86400"
  with assms(3) show "\<exists>s'. update t s = Some (Inr s')"
    by (intro update_returns) simp_all
next
  fix s'
  assume ret: "update t s = Some (Inr s')"
  note a = sensor_retry_returned [OF assms ret]
  show "if feed_sensor_retries s \<le> 3
       then state s' = IDLE \<and>
         feed_report s' = \<lparr> result = SENSOR_RETRY, arg = ucast (feed_sensor_retries s + 1),
                            millis = report_millis t \<rparr> \<and>
         feed_sensor_retries s' = feed_sensor_retries s + 1 \<and>
         millis_since_feed_attempt s' = 0 \<and>
         (\<forall>ts u. run (map Update ts) s' = Some (Inr u) \<and>
                 (\<forall>t'\<in>set ts. now_millis t' - now_millis t < 300000) \<longrightarrow>
            \<not> feeding_state (state u) \<and>
            feed_report u = feed_report s' \<and>
            need_to_feed u \<noteq> NOT_BLOCKED \<and>
            (maintenance_mode s = OPERATIONAL \<and> \<not> deficit_mg u <s deficit_threshold_mg s \<longrightarrow>
               need_to_feed u = COOLDOWN)) \<and>
         (\<forall>ts t2 u. run (map Update (ts @ [t2])) s' = Some (Inr u) \<and>
                 (\<forall>t'\<in>set ts. now_millis t' - now_millis t < 300000) \<and>
                 \<not> now_millis t2 - now_millis t < 300000 \<longrightarrow>
            need_to_feed u \<noteq> COOLDOWN)
       else feed_report s' = feed_report s \<and>
         feed_sensor_retries s' = feed_sensor_retries s \<and>
         (if state s = FEED_PRE_MEASURE_RESERVOIR
          then state s' = FEED_PRE_MEASURE_BOWL \<and> error_reservoir_stddev s'
          else state s' = FEED_RUN_SYNC \<and> error_bowl_stddev s')"
  proof (cases "feed_sensor_retries s \<le> 3")
    case False
    with a show ?thesis by simp
  next
    case True
    with a have b: "state s' = IDLE"
      "feed_report s' = \<lparr> result = SENSOR_RETRY, arg = ucast (feed_sensor_retries s + 1),
                          millis = report_millis t \<rparr>"
      "feed_sensor_retries s' = feed_sensor_retries s + 1"
      "millis_since_feed_attempt s' = 0"
      "update_prev_millis s' = now_millis t"
      "maintenance_mode s' = maintenance_mode s"
      "deficit_threshold_mg s' = deficit_threshold_mg s"
      by simp_all
    from b(1) have idle: "\<not> feeding_state (state s')" by (simp add: feeding_state_def)
    from b(4,5) have m: "millis_since_feed_attempt s' = update_prev_millis s' - now_millis t"
      by simp
    have within: "\<not> feeding_state (state u) \<and>
            feed_report u = feed_report s' \<and>
            need_to_feed u \<noteq> NOT_BLOCKED \<and>
            (maintenance_mode s = OPERATIONAL \<and> \<not> deficit_mg u <s deficit_threshold_mg s \<longrightarrow>
               need_to_feed u = COOLDOWN)"
      if r: "run (map Update ts) s' = Some (Inr u)"
        and w: "\<forall>t'\<in>set ts. now_millis t' - now_millis t < 300000"
      for ts u
    proof -
      note c = cooldown_run [OF r idle m w]
      have lt: "millis_since_feed_attempt u < 300000"
      proof (cases "ts = []")
        case True
        with c b(4) show ?thesis by simp
      next
        case False
        with c have "millis_since_feed_attempt u = now_millis (last ts) - now_millis t"
          by simp
        moreover from False w have "now_millis (last ts) - now_millis t < 300000"
          by simp
        ultimately show ?thesis by simp
      qed
      then have nb: "need_to_feed u \<noteq> NOT_BLOCKED" by (rule need_to_feed_blocked)
      have "need_to_feed u = COOLDOWN"
        if "maintenance_mode s = OPERATIONAL" "\<not> deficit_mg u <s deficit_threshold_mg s"
        using that c b(6,7) lt by (simp add: need_to_feed_cooldown(1))
      with c nb show ?thesis by simp
    qed
    have over: "need_to_feed u \<noteq> COOLDOWN"
      if "run (map Update (ts @ [t2])) s' = Some (Inr u)"
        and "\<forall>t'\<in>set ts. now_millis t' - now_millis t < 300000"
        and "\<not> now_millis t2 - now_millis t < 300000"
      for ts t2 u
      using cooldown_over [OF that(1) idle m that(2,3)] by simp
    from True b within over show ?thesis by auto
  qed
qed

lemma noisy_example:
  "update tick_limit (example_noisy n d) =
     Some (Inr (update_tail tick_limit 0 (example_noisy n d)))"
  by (simp add: update_def update_deficit_def example_noisy_def StateMachine_init_def
      Loadcell_update_def Loadcell_init_def accrue_deficit_done word_sless_alt tick_limit_def)

lemmas noisy_eval = example_noisy_def StateMachine_init_def Loadcell_init_def
  tick_limit_def update_tail_defs handle_state_def case_FEED_PRE_MEASURE_RESERVOIR_def
  handle_loadcell_readout_def is_busy_def word_sless_alt loadcell_limp_mode_def
  sensor_retry_abort_def transition_def start_for_state_def Loadcell_start_def
  need_to_feed_def FEED_MAX_RETRIES_def FEED_COOLDOWN_MILLIS_def Let_def

text \<open>
  Claim C7 as stated fails in two places. With the retries in the state used up and the
  bound of 3 passed (4 feeds aborted before), the feed is not aborted: the machine goes on
  to \<open>FEED_PRE_MEASURE_BOWL\<close> and no report is written. And with the bound just reached
  (3 feeds aborted before) but a deficit below the threshold, as after a feed started by
  hand, the feed is aborted and \<open>need_to_feed\<close> answers \<open>DEFICIT\<close>, not \<open>COOLDOWN\<close>.
\<close>

theorem sensor_retry_counterexample:
  "state (example_noisy 4 0) = FEED_PRE_MEASURE_RESERVOIR \<and>
   state_retries (example_noisy 4 0) = 5 \<and>
   feed_sensor_retries (example_noisy 4 0) = 4 \<and>
   map_option (map_sum id state) (update tick_limit (example_noisy 4 0)) =
     Some (Inr FEED_PRE_MEASURE_BOWL) \<and>
   map_option (map_sum id feed_report) (update tick_limit (example_noisy 4 0)) =
     Some (Inr \<lparr> result = NONE, arg = 0, millis = 0 \<rparr>) \<and>
   feed_sensor_retries (example_noisy 3 (- 1)) = 3 \<and>
   map_option (map_sum id state) (update tick_limit (example_noisy 3 (- 1))) =
     Some (Inr IDLE) \<and>
   map_option (map_sum id need_to_feed) (update tick_limit (example_noisy 3 (- 1))) =
     Some (Inr DEFICIT)"
  by (simp add: noisy_example) (simp add: noisy_eval)

text \<open>
  The theorem at the fourth abort of an automatic feed: the call returns, the report
  carries 4, the machine is idle and \<open>need_to_feed\<close> answers \<open>COOLDOWN\<close>; after a further
  call one minute later the machine is still outside a feed and blocked, and after a
  further call five minutes later the answer is no longer \<open>COOLDOWN\<close>.
\<close>

theorem sensor_retry_abort_or_limp_witness:
  "(state (example_noisy 3 0) = FEED_PRE_MEASURE_RESERVOIR \<or>
      state (example_noisy 3 0) = FEED_PRE_MEASURE_BOWL) \<and>
   loadcell_limp_mode (example_noisy 3 0) = None \<and>
   Loadcell_update (hx_ready tick_limit) (hx_value tick_limit) (loadcell (example_noisy 3 0)) =
     Inr (Loadcell_init\<lparr> stddev := Finite 2 \<rparr>) \<and>
   \<not> is_busy (Loadcell_init\<lparr> stddev := Finite 2 \<rparr>) \<and>
   \<not> flt (stddev (Loadcell_init\<lparr> stddev := Finite 2 \<rparr>)) (Finite 1) \<and>
   \<not> state_retries (example_noisy 3 0) < 5 \<and>
   feed_sensor_retries (example_noisy 3 0) \<le> 3 \<and>
   0 <s grams_per_day (example_noisy 3 0) \<and> grams_per_day (example_noisy 3 0) \<le>s 86400 \<and>
   (\<exists>s'. update tick_limit (example_noisy 3 0) = Some (Inr s')) \<and>
   update tick_limit (example_noisy 3 0) =
     Some (Inr (update_tail tick_limit 0 (example_noisy 3 0))) \<and>
   state (update_tail tick_limit 0 (example_noisy 3 0)) = IDLE \<and>
   feed_report (update_tail tick_limit 0 (example_noisy 3 0)) =
     \<lparr> result = SENSOR_RETRY, arg = 4, millis = 0 \<rparr> \<and>
   millis_since_feed_attempt (update_tail tick_limit 0 (example_noisy 3 0)) = 0 \<and>
   need_to_feed (update_tail tick_limit 0 (example_noisy 3 0)) = COOLDOWN \<and>
   now_millis tick_1min - now_millis tick_limit < 300000 \<and>
   (\<exists>u. run (map Update [tick_1min]) (update_tail tick_limit 0 (example_noisy 3 0)) =
           Some (Inr u) \<and>
        \<not> feeding_state (state u) \<and> need_to_feed u \<noteq> NOT_BLOCKED) \<and>
   \<not> now_millis tick_5min - now_millis tick_limit < 300000 \<and>
   (\<exists>u. run (map Update ([] @ [tick_5min])) (update_tail tick_limit 0 (example_noisy 3 0)) =
           Some (Inr u) \<and>
        need_to_feed u \<noteq> COOLDOWN)"
proof -
  let ?s = "example_noisy 3 0"
  let ?lc = "Loadcell_init\<lparr> stddev := Finite 2 \<rparr>"
  let ?s' = "update_tail tick_limit 0 ?s"
  have h1: "state ?s = FEED_PRE_MEASURE_RESERVOIR \<or> state ?s = FEED_PRE_MEASURE_BOWL"
    by (simp add: example_noisy_def)
  have h2: "loadcell_limp_mode ?s = None"
    by (simp add: example_noisy_def StateMachine_init_def loadcell_limp_mode_def)
  have h3: "Loadcell_update (hx_ready tick_limit) (hx_value tick_limit) (loadcell ?s) = Inr ?lc"
    by (simp add: example_noisy_def Loadcell_update_def Loadcell_init_def)
  have b: "\<not> is_busy ?lc"
    by (simp add: is_busy_def Loadcell_init_def word_sless_alt)
  then have h4: "10000 < millis_since_transition ?s
      + (now_millis tick_limit - update_prev_millis ?s) \<or> \<not> is_busy ?lc"
    by simp
  have h5: "\<not> flt (stddev ?lc) (Finite 1)" by simp
  have h6: "\<not> state_retries ?s < 5" by (simp add: example_noisy_def)
  have n: "feed_sensor_retries ?s \<le> 3" "feed_sensor_retries ?s = 3"
    "maintenance_mode ?s = OPERATIONAL" "deficit_threshold_mg ?s = 0"
    "report_millis tick_limit = 0"
    by (simp_all add: example_noisy_def StateMachine_init_def tick_limit_def)
  have g: "0 <s grams_per_day ?s" "grams_per_day ?s \<le>s 86400"
    by (simp_all add: example_noisy_def StateMachine_init_def word_sless_alt word_sle_eq)
  have d: "\<not> deficit_mg ?s' <s 0"
    by (simp add: update_tail_def Let_def case_prod_beta handle_state_def
        case_FEED_PRE_MEASURE_RESERVOIR_def update_timers_def update_mqtt_status_def
        example_noisy_def word_sless_alt)
  have w1: "\<forall>t'\<in>set [tick_1min]. now_millis t' - now_millis tick_limit < 300000"
    by (simp add: tick_1min_def tick_limit_def)
  have w2: "\<not> now_millis tick_5min - now_millis tick_limit < 300000"
    by (simp add: tick_5min_def tick_limit_def)
  note inst = sensor_retry_abort_or_limp [OF h1 h2 h3 h4 h5 h6]
  from inst g have ret: "\<exists>s'. update tick_limit ?s = Some (Inr s')"
    by blast
  note part = inst [THEN conjunct2, rule_format, OF noisy_example [of 3 0]]
  note big = part [unfolded if_P [OF n(1)]]
  from big have a: "state ?s' = IDLE"
    "feed_report ?s' = \<lparr> result = SENSOR_RETRY, arg = ucast (feed_sensor_retries ?s + 1),
                          millis = report_millis tick_limit \<rparr>"
    "millis_since_feed_attempt ?s' = 0"
    by blast+
  from big have within: "\<not> feeding_state (state u) \<and> need_to_feed u \<noteq> NOT_BLOCKED \<and>
          (maintenance_mode ?s = OPERATIONAL \<and> \<not> deficit_mg u <s deficit_threshold_mg ?s \<longrightarrow>
             need_to_feed u = COOLDOWN)"
    if "run (map Update ts) ?s' = Some (Inr u)"
      "\<forall>t'\<in>set ts. now_millis t' - now_millis tick_limit < 300000" for ts u
    using that by blast
  from big have over: "need_to_feed u \<noteq> COOLDOWN"
    if "run (map Update (ts @ [t2])) ?s' = Some (Inr u)"
      "\<forall>t'\<in>set ts. now_millis t' - now_millis tick_limit < 300000"
      "\<not> now_millis t2 - now_millis tick_limit < 300000" for ts t2 u
    using that by blast
  from a(2) n have a2: "feed_report ?s' = \<lparr> result = SENSOR_RETRY, arg = 4, millis = 0 \<rparr>"
    by simp
  from within [of "[]" ?s'] n d have c: "need_to_feed ?s' = COOLDOWN"
    by simp
  have lc': "Loadcell_update False 0 (loadcell ?s') = Inr (loadcell ?s')"
    by (simp add: Loadcell_update_def noisy_eval)
  have g': "0 <s grams_per_day ?s'" "grams_per_day ?s' \<le>s 86400"
    using g by (simp_all add: update_tail_frame)
  from update_returns [of tick_1min ?s', OF _ g'] lc'
  obtain u1 where u1: "update tick_1min ?s' = Some (Inr u1)"
    by (auto simp: tick_1min_def)
  then have r1: "run (map Update [tick_1min]) ?s' = Some (Inr u1)" by simp
  from within [OF r1 w1] have e1: "\<exists>u. run (map Update [tick_1min]) ?s' = Some (Inr u) \<and>
        \<not> feeding_state (state u) \<and> need_to_feed u \<noteq> NOT_BLOCKED"
    using r1 by blast
  from update_returns [of tick_5min ?s', OF _ g'] lc'
  obtain u2 where u2: "update tick_5min ?s' = Some (Inr u2)"
    by (auto simp: tick_5min_def)
  then have r2: "run (map Update ([] @ [tick_5min])) ?s' = Some (Inr u2)" by simp
  from over [OF r2 _ w2] have e2: "\<exists>u. run (map Update ([] @ [tick_5min])) ?s' = Some (Inr u) \<and>
        need_to_feed u \<noteq> COOLDOWN"
    using r2 by auto
  from w1 have w1': "now_millis tick_1min - now_millis tick_limit < 300000" by simp
  from h1 h2 h3 b h5 h6 n(1) g ret noisy_example a(1) a2 a(3) c w1' e1 w2 e2 show ?thesis
    by (intro conjI)
qed

section \<open>The error report\<close>

text \<open>
  Claim C8. \<open>get_error_report\<close> returns the report of the first condition that holds in
  the fixed priority: limit-switch fault (error), any load cell limp-mode flag (error),
  power loss (error), jammed mode (error), jam suspected (warning), reservoir low
  (warning); and a null message with severity okay when none holds. The limp-mode
  condition is that \<open>loadcell_limp_mode\<close> answers a message.
\<close>

theorem error_report_priority:
  "get_error_report s =
     first_match (spec_error_priority s) \<lparr> message = None, severity = OKAY \<rparr> \<and>
   (loadcell_limp_mode s \<noteq> None \<longleftrightarrow>
      error_loadcell_timeout s \<or> error_reservoir_stddev s \<or> error_bowl_stddev s \<or>
      error_loadcell_disagree s \<or> error_loadcell_unreasonable s)"
  by (simp add: get_error_report_def spec_error_priority_def loadcell_limp_mode_def)

text \<open>
  The theorem at a state with a power loss, a jam and a low reservoir at once: only the
  power loss is reported.
\<close>

theorem error_report_priority_witness:
  "get_error_report (StateMachine_init\<lparr> maintenance_mode := JAMMED, feed_jammed_retries := 3 \<rparr>) =
     first_match
       (spec_error_priority (StateMachine_init\<lparr> maintenance_mode := JAMMED, feed_jammed_retries := 3 \<rparr>))
       \<lparr> message = None, severity = OKAY \<rparr> \<and>
   first_match
       (spec_error_priority (StateMachine_init\<lparr> maintenance_mode := JAMMED, feed_jammed_retries := 3 \<rparr>))
       \<lparr> message = None, severity = OKAY \<rparr> =
     \<lparr> message = Some ''Power loss'', severity = ERROR \<rparr>"
  using error_report_priority [of "StateMachine_init\<lparr> maintenance_mode := JAMMED, feed_jammed_retries := 3 \<rparr>"]
  by (simp add: spec_error_priority_def StateMachine_init_def loadcell_limp_mode_def)

section \<open>The raw mean of a sample set\<close>

lemma fold_mean_replicate:
  "fold (\<lambda>sample accum. accum + (scast sample :: int64_t)) (replicate n (x :: int32_t)) a =
     a + of_nat n * scast x"
  by (induction n arbitrary: a) (simp_all add: algebra_simps del: fold_replicate)

lemma mean_accum_replicate: "mean_accum (replicate n x) = 16 + of_nat n * scast x"
  unfolding mean_accum_def by (simp only: fold_mean_replicate) (simp add: NUM_SAMPLES_def)

text \<open>
  Claim C9 does not hold of the code. The sum does start at half the sample count and is
  divided by the sample count, but the division truncates towards zero, so for a negative
  sum the bias moves the result away from the nearest integer. For 32 readings of
  \<open>-754589\<close> (the preset tare of the reservoir) the exact mean is \<open>-754589\<close> and
  \<open>Loadcell::update\<close> stores \<open>-754588\<close>; for 32 readings of \<open>-1\<close> it stores \<open>0\<close>.
\<close>

theorem mean_raw_negative_sum:
  "compute_mean_raw (replicate 32 (- 754589)) = - 754588 \<and>
   compute_mean_raw (replicate 32 (- 1)) = 0 \<and>
   map_sum id mean_raw
     (Loadcell_update True (- 754589)
        (Loadcell_init\<lparr> samples_remaining := 1, samples := replicate 32 (- 754589) \<rparr>)) =
     Inr (- 754588)"
proof -
  have a: "compute_mean_raw (replicate 32 (- 754589)) = - 754588"
    by (simp add: compute_mean_raw_def mean_accum_replicate NUM_SAMPLES_def word_sdiv_def)
  have b: "compute_mean_raw (replicate 32 (- 1)) = 0"
    by (simp add: compute_mean_raw_def mean_accum_replicate NUM_SAMPLES_def word_sdiv_def)
  have "(replicate 32 (- 754589 :: int32_t))[0 := - 754589] = replicate 32 (- 754589)"
    by (simp add: list_eq_iff_nth_eq nth_list_update)
  then have "map_sum id mean_raw
     (Loadcell_update True (- 754589)
        (Loadcell_init\<lparr> samples_remaining := 1, samples := replicate 32 (- 754589) \<rparr>)) =
     Inr (compute_mean_raw (replicate 32 (- 754589)))"
    by (simp add: Loadcell_update_def Loadcell_finish_def Loadcell_init_def NUM_SAMPLES_def
        Let_def)
  with a b show ?thesis by simp
qed

section \<open>The power-loss flag\<close>

lemma update_error_power_loss:
  assumes "update t s = Some (Inr s')"
  shows "error_power_loss s' = error_power_loss s"
proof -
  from assms obtain s2 where
    "s' = (snd (handle_state t s2))\<lparr> pin_motor := fst (handle_state t s2) \<rparr>"
    "error_power_loss s2 = error_power_loss s"
    by (rule update_Inr_switch)
  then show ?thesis by (simp add: handle_state_error_power_loss)
qed

lemma apply_command_error_power_loss:
  assumes "apply_command c s = Some (Inr s')" and "c \<noteq> Reset" and "c \<noteq> EnterMaintenance"
  shows "error_power_loss s' = error_power_loss s"
proof (cases c)
  case (Update t)
  with assms(1) show ?thesis by (simp add: update_error_power_loss)
qed (use assms in \<open>auto simp: feed_def tare_reservoir_command_def tare_bowl_command_def
      adjust_deficit_def set_grams_per_day_def\<close>)

lemma run_error_power_loss:
  assumes "run cs s = Some (Inr s')" and "Reset \<notin> set cs" and "EnterMaintenance \<notin> set cs"
  shows "error_power_loss s' = error_power_loss s"
  using assms
proof (induction cs arbitrary: s)
  case Nil
  then show ?case by simp
next
  case (Cons c cs)
  from Cons.prems(1) obtain s1 where
    1: "apply_command c s = Some (Inr s1)" and 2: "run cs s1 = Some (Inr s')"
    by (auto split: option.splits sum.splits)
  from Cons.prems(2,3) have "c \<noteq> Reset" "c \<noteq> EnterMaintenance"
    "Reset \<notin> set cs" "EnterMaintenance \<notin> set cs"
    by auto
  with 1 2 Cons.IH [of s1] show ?case
    by (simp add: apply_command_error_power_loss)
qed

text \<open>
  Claim C10. In the production build the power-loss flag is set at start, and neither
  \<open>begin\<close> nor \<open>update\<close> nor any command other than \<open>reset\<close> and \<open>enter_maintenance\<close> clears
  it: after every run of calls without these two, started by \<open>begin\<close> on the initial
  state, the flag is set, and where neither the limit-switch fault nor a load cell
  limp-mode flag is set, \<open>get_error_report\<close> returns "Power loss" with severity error.
\<close>

theorem power_loss_reported:
  assumes "run cs (StateMachine_begin now StateMachine_init) = Some (Inr s)"
    and "Reset \<notin> set cs" and "EnterMaintenance \<notin> set cs"
  shows "error_power_loss s \<and>
    (\<not> error_limit_switch s \<and> loadcell_limp_mode s = None \<longrightarrow>
       get_error_report s = \<lparr> message = Some ''Power loss'', severity = ERROR \<rparr>)"
proof -
  have "error_power_loss (StateMachine_begin now StateMachine_init)"
    by (simp add: StateMachine_begin_def StateMachine_init_def)
  with run_error_power_loss [OF assms] have "error_power_loss s" by simp
  then show ?thesis by (simp add: get_error_report_def)
qed

lemma run_example:
  "run [Feed, Update tick_1ms] (StateMachine_begin 0 StateMachine_init) =
     Some (Inr (update_tail tick_1ms 1
       ((feed (StateMachine_begin 0 StateMachine_init))
          \<lparr> update_prev_millis := 1, deficit_ms_remain := 1439, deficit_mg := 1,
            mqtt_deficit := round_nearest (1 / 1000) \<rparr>)))"
  by (simp add: update_def update_deficit_def feed_def transition_def start_for_state_def
      StateMachine_begin_def StateMachine_init_def set_tare_raw_def
      Loadcell_update_def Loadcell_init_def accrue_deficit_step accrue_deficit_done
      word_sdiv_def word_sless_alt tick_1ms_def round_nearest_consts)

text \<open>The theorem after a feed command and one call of \<open>update\<close>.\<close>

theorem power_loss_reported_witness:
  "run [Feed, Update tick_1ms] (StateMachine_begin 0 StateMachine_init) =
     Some (Inr (update_tail tick_1ms 1
       ((feed (StateMachine_begin 0 StateMachine_init))
          \<lparr> update_prev_millis := 1, deficit_ms_remain := 1439, deficit_mg := 1,
            mqtt_deficit := round_nearest (1 / 1000) \<rparr>))) \<and>
   Reset \<notin> set [Feed, Update tick_1ms] \<and>
   EnterMaintenance \<notin> set [Feed, Update tick_1ms] \<and>
   error_power_loss (update_tail tick_1ms 1
       ((feed (StateMachine_begin 0 StateMachine_init))
          \<lparr> update_prev_millis := 1, deficit_ms_remain := 1439, deficit_mg := 1,
            mqtt_deficit := round_nearest (1 / 1000) \<rparr>)) \<and>
   get_error_report (update_tail tick_1ms 1
       ((feed (StateMachine_begin 0 StateMachine_init))
          \<lparr> update_prev_millis := 1, deficit_ms_remain := 1439, deficit_mg := 1,
            mqtt_deficit := round_nearest (1 / 1000) \<rparr>)) =
     \<lparr> message = Some ''Power loss'', severity = ERROR \<rparr>"
proof -
  let ?s = "update_tail tick_1ms 1
       ((feed (StateMachine_begin 0 StateMachine_init))
          \<lparr> update_prev_millis := 1, deficit_ms_remain := 1439, deficit_mg := 1,
            mqtt_deficit := round_nearest (1 / 1000) \<rparr>)"
  have h2: "Reset \<notin> set [Feed, Update tick_1ms]" by simp
  have h3: "EnterMaintenance \<notin> set [Feed, Update tick_1ms]" by simp
  have f: "\<not> error_limit_switch ?s" "loadcell_limp_mode ?s = None"
    by (simp_all add: update_tail_defs handle_state_def case_FEED_PRE_MEASURE_WAIT_def
        feed_def transition_def start_for_state_def StateMachine_begin_def
        StateMachine_init_def loadcell_limp_mode_def Let_def)
  from power_loss_reported [OF run_example h2 h3] f run_example h2 h3
  show ?thesis by simp
qed

end
